theory Spec2Isabelle
  imports Complex_Main
begin

section \<open>Conventions of the embedding\<close>

text \<open>
  The engines of \<^verbatim>\<open>backend/app/engine\<close> are embedded function by function.
  Python \<^verbatim>\<open>int\<close> is \<^typ>\<open>int\<close>; Python \<^verbatim>\<open>float\<close> is idealised as \<^typ>\<open>real\<close>
  (exact arithmetic, no rounding error, no infinities); \<^verbatim>\<open>int(x)\<close> on a float
  truncates toward zero. A \<^verbatim>\<open>dict\<close> is an association list in insertion order
  with distinct keys; a \<^verbatim>\<open>datetime\<close> is a number of seconds. Every exception the
  source can raise is a value of \<open>py_error\<close>, returned as \<open>Inl\<close>; \<open>NanResult\<close>
  is not an exception, it stands for the one place where numpy returns not-a-number
  values, which the reals do not have. Record fields carry a short prefix where two
  classes of the source use the same field name.
\<close>

datatype py_error = KeyError | ZeroDivisionError | ValueError | AttributeError | NanResult

type_synonym datetime = real

definition py_int :: "real \<Rightarrow> int" where
  "py_int x = (if 0 \<le> x then \<lfloor>x\<rfloor> else \<lceil>x\<rceil>)"

fun dict_set :: "('k \<times> 'v) list \<Rightarrow> 'k \<Rightarrow> 'v \<Rightarrow> ('k \<times> 'v) list" where
  "dict_set [] k v = [(k, v)]"
| "dict_set ((k', v') # kvs) k v =
     (if k' = k then (k, v) # kvs else (k', v') # dict_set kvs k v)"

definition dict_get :: "('k \<times> 'v) list \<Rightarrow> 'k \<Rightarrow> py_error + 'v" where
  "dict_get d k = (case map_of d k of None \<Rightarrow> Inl KeyError | Some v \<Rightarrow> Inr v)"

section \<open>Venue and crowd state (models/venue.py, models/crowd.py)\<close>

record Gate =
  gate_id :: string
  capacity_per_minute :: int
  is_emergency_exit :: bool
  g_connected_zones :: "string list"
  is_open :: bool

record Zone =
  zone_id :: string
  capacity :: int
  area_sqm :: real
  z_connected_zones :: "string list"

record Venue =
  gates :: "Gate list"
  zones :: "Zone list"

definition get_zone :: "Venue \<Rightarrow> string \<Rightarrow> Zone option" where
  "get_zone venue zid = find (\<lambda>z. zone_id z = zid) (zones venue)"

datatype risk = Safe | Moderate | High | CriticalRisk

record ZoneState =
  zs_current_occupancy :: int
  density :: real
  risk_level :: risk

record GateState =
  queue_length :: int
  throughput_rate :: real
  wait_time_minutes :: real
  is_congested :: bool

record CrowdState =
  event_id :: string
  timestamp :: datetime
  simulation_time_minutes :: real
  total_inside :: int
  total_queuing :: int
  total_exited :: int
  total_approaching :: int
  zone_states :: "(string \<times> ZoneState) list"
  gate_states :: "(string \<times> GateState) list"
  overall_inflow_rate :: real
  overall_outflow_rate :: real

section \<open>CrowdSimulationEngine (engine/simulation.py)\<close>

record SimulationParams =
  desired_speed :: real
  max_speed :: real
  density_comfortable :: real
  density_crowded :: real
  density_dangerous :: real
  density_critical :: real
  gate_scan_time :: real
  vip_scan_time :: real
  flow_reduction_crowded :: real
  flow_reduction_dangerous :: real
  flow_reduction_critical :: real

definition default_params :: SimulationParams where
  "default_params = \<lparr> desired_speed = 134 / 100, max_speed = 5 / 2,
     density_comfortable = 1 / 2, density_crowded = 2, density_dangerous = 4,
     density_critical = 6, gate_scan_time = 3, vip_scan_time = 3 / 2,
     flow_reduction_crowded = 7 / 10, flow_reduction_dangerous = 4 / 10,
     flow_reduction_critical = 1 / 10 \<rparr>"

text \<open>
  The engine object holds its parameters and a numpy generator seeded with 42. numpy is
  not part of the repository: the sequence of values that \<^verbatim>\<open>self._rng.random()\<close>
  returns is the parameter \<open>rng_stream\<close> (each value in the interval from 0 to 1,
  1 excluded), and \<open>rng_pos\<close> counts the draws made so far.
\<close>

record Engine =
  params :: SimulationParams
  rng_stream :: "nat \<Rightarrow> real"
  rng_pos :: nat

definition rng_random :: "Engine \<Rightarrow> real \<times> Engine" where
  "rng_random e = (rng_stream e (rng_pos e), e\<lparr>rng_pos := Suc (rng_pos e)\<rparr>)"

definition get_density_reduction :: "SimulationParams \<Rightarrow> real \<Rightarrow> real" where
  "get_density_reduction p d =
     (if d < density_comfortable p then 1
      else if d < density_crowded p then flow_reduction_crowded p
      else if d < density_dangerous p then flow_reduction_dangerous p
      else flow_reduction_critical p)"

definition get_risk_level :: "SimulationParams \<Rightarrow> real \<Rightarrow> risk" where
  "get_risk_level p d =
     (if d < density_comfortable p then Safe
      else if d < density_crowded p then Moderate
      else if d < density_dangerous p then High
      else CriticalRisk)"

text \<open>
  \<^verbatim>\<open>_calculate_flow_reduction\<close>: the maximum density over the connected zones that
  exist in the venue. \<^verbatim>\<open>max\<close> consumes the generator in order, so the first zone
  without a state raises \<^verbatim>\<open>KeyError\<close>, and a non-empty list holding only unknown
  zones makes \<^verbatim>\<open>max\<close> raise \<^verbatim>\<open>ValueError\<close>.
\<close>

fun zone_densities :: "CrowdState \<Rightarrow> Zone option list \<Rightarrow> py_error + real list" where
  "zone_densities s [] = Inr []"
| "zone_densities s (None # zs) = zone_densities s zs"
| "zone_densities s (Some z # zs) =
     (case dict_get (zone_states s) (zone_id z) of
        Inl e \<Rightarrow> Inl e
      | Inr st \<Rightarrow> (case zone_densities s zs of
                    Inl e \<Rightarrow> Inl e
                  | Inr ds \<Rightarrow> Inr (density st # ds)))"

definition calculate_flow_reduction ::
  "SimulationParams \<Rightarrow> CrowdState \<Rightarrow> Zone option list \<Rightarrow> py_error + real" where
  "calculate_flow_reduction p s zs =
     (if zs = [] then Inr 1
      else case zone_densities s zs of
             Inl e \<Rightarrow> Inl e
           | Inr [] \<Rightarrow> Inl ValueError
           | Inr (d # ds) \<Rightarrow> Inr (get_density_reduction p (fold max ds d)))"

text \<open>
  Lines 170 to 176 of \<^verbatim>\<open>_process_gates\<close>: what a gate with per-minute capacity
  \<open>cap\<close> and queue \<open>q\<close> admits in \<open>dt\<close> seconds under the reduction factor \<open>red\<close>.
\<close>

definition gate_throughput :: "int \<Rightarrow> real \<Rightarrow> int \<Rightarrow> real \<Rightarrow> int" where
  "gate_throughput cap dt q red = py_int (min (real_of_int cap * dt / 60) (real_of_int q) * red)"

text \<open>
  \<^verbatim>\<open>_process_arrivals\<close>. The loop over the open gates reads \<open>arrivals_this_step\<close>
  and \<open>total_capacity\<close>, fixed before the loop, and updates the state gate by gate.
\<close>

fun distribute_arrivals :: "int \<Rightarrow> int \<Rightarrow> Gate list \<Rightarrow> CrowdState \<Rightarrow> py_error + CrowdState" where
  "distribute_arrivals arrivals total_capacity [] s = Inr s"
| "distribute_arrivals arrivals total_capacity (g # gs) s =
     (if total_capacity = 0 then Inl ZeroDivisionError
      else
        let gate_share = real_of_int (capacity_per_minute g) / real_of_int total_capacity;
            gate_arrivals = py_int (real_of_int arrivals * gate_share)
        in case dict_get (gate_states s) (gate_id g) of
             Inl e \<Rightarrow> Inl e
           | Inr gst \<Rightarrow>
               distribute_arrivals arrivals total_capacity gs
                 (s\<lparr> gate_states := dict_set (gate_states s) (gate_id g)
                                       (gst\<lparr>queue_length := queue_length gst + gate_arrivals\<rparr>),
                     total_approaching := total_approaching s - gate_arrivals,
                     total_queuing := total_queuing s + gate_arrivals \<rparr>))"

definition process_arrivals ::
  "Engine \<Rightarrow> Venue \<Rightarrow> CrowdState \<Rightarrow> real \<Rightarrow> real \<Rightarrow> py_error + (Engine \<times> CrowdState)" where
  "process_arrivals e venue s arrival_rate dt_seconds =
     (if total_approaching s \<le> 0 then Inr (e, s)
      else
        let (jitter, e') = rng_random e;
            arrivals_this_step = min (py_int (arrival_rate * dt_seconds / 60 + jitter))
                                     (total_approaching s)
        in if arrivals_this_step \<le> 0 then Inr (e', s)
           else
             let open_gates = filter (\<lambda>g. is_open g \<and> \<not> is_emergency_exit g) (gates venue)
             in if open_gates = [] then Inr (e', s)
                else
                  case distribute_arrivals arrivals_this_step
                         (sum_list (map capacity_per_minute open_gates)) open_gates s of
                    Inl err \<Rightarrow> Inl err
                  | Inr s' \<Rightarrow> Inr (e', s'))"

text \<open>
  \<^verbatim>\<open>_process_gates\<close>. \<open>add_to_zones\<close> is the inner loop that adds \<open>per_zone\<close> to every
  connected zone the venue knows; \<open>gates_loop\<close> is the loop over the gates, carrying the
  state and \<open>total_entered\<close>.
\<close>

fun add_to_zones :: "int \<Rightarrow> Zone option list \<Rightarrow> CrowdState \<Rightarrow> py_error + CrowdState" where
  "add_to_zones per_zone [] s = Inr s"
| "add_to_zones per_zone (None # zs) s = add_to_zones per_zone zs s"
| "add_to_zones per_zone (Some z # zs) s =
     (case dict_get (zone_states s) (zone_id z) of
        Inl e \<Rightarrow> Inl e
      | Inr zst \<Rightarrow>
          add_to_zones per_zone zs
            (s\<lparr> zone_states := dict_set (zone_states s) (zone_id z)
                 (zst\<lparr>zs_current_occupancy := zs_current_occupancy zst + per_zone\<rparr>) \<rparr>))"

fun gates_loop ::
  "SimulationParams \<Rightarrow> Venue \<Rightarrow> real \<Rightarrow> Gate list \<Rightarrow> CrowdState \<Rightarrow> int
     \<Rightarrow> py_error + (CrowdState \<times> int)" where
  "gates_loop p venue dt [] s total_entered = Inr (s, total_entered)"
| "gates_loop p venue dt (g # gs) s total_entered =
     (if \<not> is_open g then gates_loop p venue dt gs s total_entered
      else
        (case dict_get (gate_states s) (gate_id g) of
           Inl e \<Rightarrow> Inl e
         | Inr gst \<Rightarrow>
             (if queue_length gst \<le> 0 then gates_loop p venue dt gs s total_entered
              else
                (let connected_zones = map (get_zone venue) (g_connected_zones g)
                 in case calculate_flow_reduction p s connected_zones of
                      Inl e \<Rightarrow> Inl e
                    | Inr reduction \<Rightarrow>
                        (let actual_throughput =
                               gate_throughput (capacity_per_minute g) dt (queue_length gst) reduction;
                             queue' = queue_length gst - actual_throughput
                         in if dt = 0 then Inl ZeroDivisionError
                            else
                              (let wait = (if capacity_per_minute g > 0
                                           then real_of_int queue' / real_of_int (capacity_per_minute g)
                                           else 0);
                                   gst' = gst\<lparr> queue_length := queue',
                                               throughput_rate := real_of_int actual_throughput * 60 / dt,
                                               wait_time_minutes := wait,
                                               is_congested := (wait > 10) \<rparr>;
                                   s1 = s\<lparr> gate_states := dict_set (gate_states s) (gate_id g) gst' \<rparr>
                               in (case (if connected_zones \<noteq> [] \<and> actual_throughput > 0
                                         then add_to_zones
                                                (actual_throughput div int (length connected_zones))
                                                connected_zones s1
                                         else Inr s1) of
                                     Inl e \<Rightarrow> Inl e
                                   | Inr s2 \<Rightarrow>
                                       gates_loop p venue dt gs
                                         (s2\<lparr> total_queuing := total_queuing s2 - actual_throughput \<rparr>)
                                         (total_entered + actual_throughput))))))))"

definition process_gates ::
  "SimulationParams \<Rightarrow> Venue \<Rightarrow> CrowdState \<Rightarrow> real \<Rightarrow> py_error + CrowdState" where
  "process_gates p venue s dt =
     (case gates_loop p venue dt (gates venue) s 0 of
        Inl e \<Rightarrow> Inl e
      | Inr (s', total_entered) \<Rightarrow>
          if dt = 0 then Inl ZeroDivisionError
          else Inr (s'\<lparr> total_inside := total_inside s' + total_entered,
                        overall_inflow_rate := real_of_int total_entered * 60 / dt \<rparr>))"

text \<open>
  \<^verbatim>\<open>_process_zone_flow\<close>. \<open>zone_state\<close> and \<open>target_state\<close> of the source are
  references into \<open>state.zone_states\<close>: the model reads the source zone's occupancy from
  the state at every transfer, and writes the target after the source, so that a zone
  connected to itself is handled as the shared object is.
\<close>

fun flow_targets ::
  "SimulationParams \<Rightarrow> real \<Rightarrow> string \<Rightarrow> real \<Rightarrow> nat \<Rightarrow> Zone list \<Rightarrow> CrowdState
     \<Rightarrow> py_error + CrowdState" where
  "flow_targets p dt src reduction n [] s = Inr s"
| "flow_targets p dt src reduction n (t # ts) s =
     (case dict_get (zone_states s) (zone_id t) of
        Inl e \<Rightarrow> Inl e
      | Inr tst \<Rightarrow>
          (let available_capacity = capacity t - zs_current_occupancy tst
           in if available_capacity \<le> 0 then flow_targets p dt src reduction n ts s
              else
                (case dict_get (zone_states s) src of
                   Inl e \<Rightarrow> Inl e
                 | Inr sst \<Rightarrow>
                     (let flow = py_int (min (min (desired_speed p * 60 * reduction * dt / 60 / real n)
                                                  (real_of_int (zs_current_occupancy sst) * (1 / 10)))
                                             (real_of_int available_capacity))
                      in if flow > 0 then
                           (let zs1 = dict_set (zone_states s) src
                                        (sst\<lparr>zs_current_occupancy := zs_current_occupancy sst - flow\<rparr>)
                            in case dict_get zs1 (zone_id t) of
                                 Inl e \<Rightarrow> Inl e
                               | Inr tst1 \<Rightarrow>
                                   flow_targets p dt src reduction n ts
                                     (s\<lparr> zone_states := dict_set zs1 (zone_id t)
                                          (tst1\<lparr>zs_current_occupancy :=
                                                   zs_current_occupancy tst1 + flow\<rparr>) \<rparr>))
                         else flow_targets p dt src reduction n ts s))))"

fun zones_loop ::
  "SimulationParams \<Rightarrow> Venue \<Rightarrow> real \<Rightarrow> Zone list \<Rightarrow> CrowdState \<Rightarrow> py_error + CrowdState" where
  "zones_loop p venue dt [] s = Inr s"
| "zones_loop p venue dt (z # zs) s =
     (case dict_get (zone_states s) (zone_id z) of
        Inl e \<Rightarrow> Inl e
      | Inr zst \<Rightarrow>
          (if zs_current_occupancy zst \<le> 0 then zones_loop p venue dt zs s
           else
             (let reduction = get_density_reduction p (density zst);
                  connected = List.map_filter (get_zone venue) (z_connected_zones z)
              in if connected = [] then zones_loop p venue dt zs s
                 else
                   (case flow_targets p dt (zone_id z) reduction (length connected) connected s of
                      Inl e \<Rightarrow> Inl e
                    | Inr s' \<Rightarrow> zones_loop p venue dt zs s'))))"

definition process_zone_flow ::
  "SimulationParams \<Rightarrow> Venue \<Rightarrow> CrowdState \<Rightarrow> real \<Rightarrow> py_error + CrowdState" where
  "process_zone_flow p venue s dt = zones_loop p venue dt (zones venue) s"

fun densities_loop :: "SimulationParams \<Rightarrow> Zone list \<Rightarrow> CrowdState \<Rightarrow> py_error + CrowdState" where
  "densities_loop p [] s = Inr s"
| "densities_loop p (z # zs) s =
     (case dict_get (zone_states s) (zone_id z) of
        Inl e \<Rightarrow> Inl e
      | Inr zst \<Rightarrow>
          (if area_sqm z = 0 then Inl ZeroDivisionError
           else
             (let d = real_of_int (zs_current_occupancy zst) / area_sqm z
              in densities_loop p zs
                   (s\<lparr> zone_states := dict_set (zone_states s) (zone_id z)
                        (zst\<lparr>density := d, risk_level := get_risk_level p d\<rparr>) \<rparr>))))"

definition update_densities :: "SimulationParams \<Rightarrow> Venue \<Rightarrow> CrowdState \<Rightarrow> py_error + CrowdState" where
  "update_densities p venue s = densities_loop p (zones venue) s"

text \<open>
  \<^verbatim>\<open>simulate_timestep\<close> works on a deep copy of the state it is given, so the model is
  a function from the engine and the state to the engine (its generator advanced) and the
  new state.
\<close>

definition simulate_timestep ::
  "Engine \<Rightarrow> Venue \<Rightarrow> CrowdState \<Rightarrow> real \<Rightarrow> real \<Rightarrow> py_error + (Engine \<times> CrowdState)" where
  "simulate_timestep e venue s dt_seconds arrival_rate =
     (let s0 = s\<lparr> timestamp := timestamp s + dt_seconds,
                  simulation_time_minutes := simulation_time_minutes s + dt_seconds / 60 \<rparr>
      in case process_arrivals e venue s0 arrival_rate dt_seconds of
           Inl err \<Rightarrow> Inl err
         | Inr (e', s1) \<Rightarrow>
             (case process_gates (params e) venue s1 dt_seconds of
                Inl err \<Rightarrow> Inl err
              | Inr s2 \<Rightarrow>
                  (case process_zone_flow (params e) venue s2 dt_seconds of
                     Inl err \<Rightarrow> Inl err
                   | Inr s3 \<Rightarrow>
                       (case update_densities (params e) venue s3 of
                          Inl err \<Rightarrow> Inl err
                        | Inr s4 \<Rightarrow> Inr (e', s4)))))"

definition initialize_state :: "Venue \<Rightarrow> string \<Rightarrow> int \<Rightarrow> datetime \<Rightarrow> CrowdState" where
  "initialize_state venue eid expected_attendance start_time =
     \<lparr> event_id = eid, timestamp = start_time, simulation_time_minutes = 0,
       total_inside = 0, total_queuing = 0, total_exited = 0,
       total_approaching = expected_attendance,
       zone_states = fold (\<lambda>z d. dict_set d (zone_id z)
                        \<lparr>zs_current_occupancy = 0, density = 0, risk_level = Safe\<rparr>)
                      (zones venue) [],
       gate_states = fold (\<lambda>g d. dict_set d (gate_id g)
                        \<lparr>queue_length = 0, throughput_rate = 0, wait_time_minutes = 0,
                         is_congested = False\<rparr>)
                      (gates venue) [],
       overall_inflow_rate = 0, overall_outflow_rate = 0 \<rparr>"

definition attendee_total :: "CrowdState \<Rightarrow> int" where
  "attendee_total s = total_approaching s + total_queuing s + total_inside s + total_exited s"

text \<open>
  Two successive calls on one engine object with the same arguments: the second call
  runs on the engine as the first one left it.
\<close>

definition simulate_twice ::
  "Engine \<Rightarrow> Venue \<Rightarrow> CrowdState \<Rightarrow> real \<Rightarrow> real \<Rightarrow> py_error + (CrowdState \<times> CrowdState)" where
  "simulate_twice e venue s dt_seconds arrival_rate =
     (case simulate_timestep e venue s dt_seconds arrival_rate of
        Inl err \<Rightarrow> Inl err
      | Inr (e1, s1) \<Rightarrow>
          (case simulate_timestep e1 venue s dt_seconds arrival_rate of
             Inl err \<Rightarrow> Inl err
           | Inr (e2, s2) \<Rightarrow> Inr (s1, s2)))"

subsection \<open>Concrete venues and states\<close>

text \<open>
  The scenario of the specification: one zone of capacity 1000 and area 250, fed by one
  gate of 200 persons per minute, 5000 attendees expected. The engine is the default
  one; its stream of draws starts with 0.7739560485559633 and 0.4388784397520523.
\<close>

definition sample_stream :: "nat \<Rightarrow> real" where
  "sample_stream n = (if n = 0 then 7739560485559633 / 10 ^ 16
                      else if n = 1 then 4388784397520523 / 10 ^ 16
                      else 8585979199113825 / 10 ^ 16)"

definition sample_engine :: Engine where
  "sample_engine = \<lparr> params = default_params, rng_stream = sample_stream, rng_pos = 0 \<rparr>"

definition sample_venue :: Venue where
  "sample_venue = \<lparr> gates = [\<lparr> gate_id = ''G1'', capacity_per_minute = 200,
                               is_emergency_exit = False, g_connected_zones = [''Z1''],
                               is_open = True \<rparr>],
                    zones = [\<lparr> zone_id = ''Z1'', capacity = 1000, area_sqm = 250,
                               z_connected_zones = [] \<rparr>] \<rparr>"

definition sample_state :: CrowdState where
  "sample_state = initialize_state sample_venue ''E1'' 5000 0"

definition sample_state_after :: CrowdState where
  "sample_state_after =
     \<lparr> event_id = ''E1'', timestamp = 60, simulation_time_minutes = 1, total_inside = 200,
       total_queuing = 100, total_exited = 0, total_approaching = 4700,
       zone_states =
         [(''Z1'', \<lparr>zs_current_occupancy = 200, density = 4 / 5, risk_level = Moderate\<rparr>)],
       gate_states =
         [(''G1'', \<lparr>queue_length = 100, throughput_rate = 200, wait_time_minutes = 1 / 2,
                    is_congested = False\<rparr>)],
       overall_inflow_rate = 200, overall_outflow_rate = 0 \<rparr>"

text \<open>
  A narrow gate (5 persons per minute) with 100 people queuing, in front of a zone whose
  recorded density is \<open>d\<close>; nothing else depends on \<open>d\<close>.
\<close>

definition narrow_venue :: Venue where
  "narrow_venue = \<lparr> gates = [\<lparr> gate_id = ''G1'', capacity_per_minute = 5,
                               is_emergency_exit = False, g_connected_zones = [''Z1''],
                               is_open = True \<rparr>],
                    zones = [\<lparr> zone_id = ''Z1'', capacity = 2000, area_sqm = 250,
                               z_connected_zones = [] \<rparr>] \<rparr>"

definition narrow_state :: "real \<Rightarrow> CrowdState" where
  "narrow_state d =
     \<lparr> event_id = ''E1'', timestamp = 0, simulation_time_minutes = 0, total_inside = 50,
       total_queuing = 100, total_exited = 0, total_approaching = 0,
       zone_states =
         [(''Z1'', \<lparr>zs_current_occupancy = 50, density = d, risk_level = get_risk_level default_params d\<rparr>)],
       gate_states =
         [(''G1'', \<lparr>queue_length = 100, throughput_rate = 0, wait_time_minutes = 20,
                    is_congested = True\<rparr>)],
       overall_inflow_rate = 0, overall_outflow_rate = 0 \<rparr>"

text \<open>
  A hall of 100 people connected to two empty wings, no gate, nobody approaching.
\<close>

definition hall_venue :: Venue where
  "hall_venue = \<lparr> gates = [],
                  zones = [\<lparr> zone_id = ''A'', capacity = 1000, area_sqm = 500,
                             z_connected_zones = [''B'', ''C''] \<rparr>,
                           \<lparr> zone_id = ''B'', capacity = 1000, area_sqm = 500,
                             z_connected_zones = [] \<rparr>,
                           \<lparr> zone_id = ''C'', capacity = 1000, area_sqm = 500,
                             z_connected_zones = [] \<rparr>] \<rparr>"

definition hall_state :: CrowdState where
  "hall_state =
     \<lparr> event_id = ''E1'', timestamp = 0, simulation_time_minutes = 0, total_inside = 100,
       total_queuing = 0, total_exited = 0, total_approaching = 0,
       zone_states =
         [(''A'', \<lparr>zs_current_occupancy = 100, density = 1 / 5, risk_level = Safe\<rparr>),
          (''B'', \<lparr>zs_current_occupancy = 0, density = 0, risk_level = Safe\<rparr>),
          (''C'', \<lparr>zs_current_occupancy = 0, density = 0, risk_level = Safe\<rparr>)],
       gate_states = [],
       overall_inflow_rate = 0, overall_outflow_rate = 0 \<rparr>"

definition occupancies :: "CrowdState \<Rightarrow> (string \<times> int) list" where
  "occupancies s = map (\<lambda>(k, st). (k, zs_current_occupancy st)) (zone_states s)"

text \<open>
  Notions used to state bounds on the zone occupancies: the capacity the venue gives a
  zone identifier, the occupancy a state records for it (0 when it records none), and
  \<open>occupancy_within lo hi s\<close>, every recorded occupancy of \<open>s\<close> lying between the
  bounds \<open>lo\<close> and \<open>hi\<close> of its zone.
\<close>

definition zone_capacity :: "Venue \<Rightarrow> string \<Rightarrow> int" where
  "zone_capacity venue k = (case get_zone venue k of None \<Rightarrow> 0 | Some z \<Rightarrow> capacity z)"

definition occupancy_of :: "CrowdState \<Rightarrow> string \<Rightarrow> int" where
  "occupancy_of s k =
     (case map_of (zone_states s) k of None \<Rightarrow> 0 | Some st \<Rightarrow> zs_current_occupancy st)"

definition occupancy_within ::
  "(string \<Rightarrow> int) \<Rightarrow> (string \<Rightarrow> int) \<Rightarrow> CrowdState \<Rightarrow> bool" where
  "occupancy_within lo hi s =
     (\<forall>k st. map_of (zone_states s) k = Some st \<longrightarrow>
        lo k \<le> zs_current_occupancy st \<and> zs_current_occupancy st \<le> hi k)"

text \<open>The number of people one run of \<^verbatim>\<open>_process_gates\<close> lets into the venue.\<close>

definition entered :: "SimulationParams \<Rightarrow> Venue \<Rightarrow> CrowdState \<Rightarrow> real \<Rightarrow> py_error + int" where
  "entered p venue s dt =
     (case process_gates p venue s dt of
        Inl e \<Rightarrow> Inl e
      | Inr s' \<Rightarrow> Inr (total_inside s' - total_inside s))"

text \<open>An engine whose generator returns the same value at every draw.\<close>

definition constant_engine :: "real \<Rightarrow> nat \<Rightarrow> Engine" where
  "constant_engine r n = \<lparr> params = default_params, rng_stream = (\<lambda>_. r), rng_pos = n \<rparr>"

section \<open>EvacuationSimulator (engine/evacuation.py)\<close>

datatype EvacuationPhase = NORMAL | ALERT | PANIC | CRITICAL

record EmergencyExit =
  exit_id :: string
  ex_name :: string
  width :: real
  max_flow_rate :: int
  connects_to_zone :: string
  is_accessible :: bool
  current_flow_rate :: int

record EvacuationZone =
  ez_zone_id :: string
  ez_current_occupancy :: int
  ez_area_sqm :: real
  nearest_exits :: "string list"
  distance_to_exits :: "(string \<times> real) list"
  evacuation_started :: bool
  evacuated_count :: int
  estimated_time_remaining :: int

text \<open>
  Bottlenecks and recommendations are dictionaries in the source. The model keeps their
  keys that carry data (severity, identifier, density or flow rate, priority, exit names,
  progress) and leaves out the formatted message texts and the rounding of the figures
  shown in them.
\<close>

datatype severity = SevCritical | SevHigh | SevMedium

datatype Bottleneck =
    ZoneBottleneck string severity real
  | ExitBottleneck string int

datatype Recommendation =
    EvacuationStart nat string "string list"
  | CriticalAction "string option"
  | Obstruction string
  | Progress real

record EvacuationState =
  phase :: EvacuationPhase
  start_time :: "datetime option"
  elapsed_seconds :: int
  total_to_evacuate :: int
  total_evacuated :: int
  bottlenecks :: "Bottleneck list"
  recommendations :: "Recommendation list"
  estimated_complete_time :: int

text \<open>
  \<^verbatim>\<open>start_evacuation\<close> builds \<^verbatim>\<open>state.zones\<close> as a new dictionary over the zone
  objects of \<^verbatim>\<open>self.zones\<close>: same keys, same objects. The model therefore keeps one
  table of zones, \<open>ev_zones\<close>, which stands for both. \<open>history\<close> holds the copies made
  by \<^verbatim>\<open>_copy_state\<close>: the state with its own copy of the zones.
\<close>

record EvacuationSimulator =
  exits :: "(string \<times> EmergencyExit) list"
  ev_zones :: "(string \<times> EvacuationZone) list"
  state :: "EvacuationState option"
  history :: "(EvacuationState \<times> (string \<times> EvacuationZone) list) list"

definition BOTTLENECK_DENSITY :: real where "BOTTLENECK_DENSITY = 4"
definition CRUSHING_DENSITY :: real where "CRUSHING_DENSITY = 6"

definition new_simulator :: "EmergencyExit list \<Rightarrow> EvacuationZone list \<Rightarrow> EvacuationSimulator" where
  "new_simulator es zs =
     \<lparr> exits = fold (\<lambda>e d. dict_set d (exit_id e) e) es [],
       ev_zones = fold (\<lambda>z d. dict_set d (ez_zone_id z) z) zs [],
       state = None, history = [] \<rparr>"

text \<open>
  \<^verbatim>\<open>_generate_initial_recommendations\<close> reads \<^verbatim>\<open>self.state.zones\<close>; on a simulator
  whose \<^verbatim>\<open>state\<close> is still \<^verbatim>\<open>None\<close> that attribute access raises. \<^verbatim>\<open>sorted\<close> with
  \<^verbatim>\<open>reverse=True\<close> is stable, as \<open>sort_key\<close> on the negated key is.
\<close>

fun initial_recs ::
  "(string \<times> EmergencyExit) list \<Rightarrow> nat \<Rightarrow> EvacuationZone list \<Rightarrow> Recommendation list" where
  "initial_recs ex i [] = []"
| "initial_recs ex i (z # zs) =
     (if ez_current_occupancy z > 0
      then EvacuationStart (i + 1) (ez_zone_id z)
             (List.map_filter (\<lambda>eid. map_option ex_name (map_of ex eid)) (nearest_exits z))
           # initial_recs ex (i + 1) zs
      else initial_recs ex (i + 1) zs)"

definition generate_initial_recommendations ::
  "EvacuationSimulator \<Rightarrow> py_error + Recommendation list" where
  "generate_initial_recommendations sim =
     (case state sim of
        None \<Rightarrow> Inl AttributeError
      | Some st \<Rightarrow>
          Inr (initial_recs (exits sim) 0
                 (take 3 (sort_key (\<lambda>z. - ez_current_occupancy z) (map snd (ev_zones sim))))))"

text \<open>
  \<^verbatim>\<open>start_evacuation\<close>. The arguments of the \<^verbatim>\<open>EvacuationState\<close> constructor are
  evaluated before \<^verbatim>\<open>self.state\<close> is assigned, among them the call of
  \<^verbatim>\<open>_generate_initial_recommendations\<close>.
\<close>

definition start_evacuation ::
  "EvacuationSimulator \<Rightarrow> datetime \<Rightarrow> EvacuationPhase \<Rightarrow> py_error + EvacuationSimulator" where
  "start_evacuation sim trigger_time initial_phase =
     (let total = sum_list (map (ez_current_occupancy \<circ> snd) (ev_zones sim));
          total_exit_capacity = sum_list (map (max_flow_rate \<circ> snd) (exits sim));
          estimated_time = (if total_exit_capacity > 0
                            then real_of_int total / real_of_int total_exit_capacity * 60
                            else 9999);
          safety_factor = (if initial_phase = ALERT then 3 / 2 else 2);
          estimated_time' = estimated_time * safety_factor
      in case generate_initial_recommendations sim of
           Inl e \<Rightarrow> Inl e
         | Inr recs \<Rightarrow>
             Inr (sim\<lparr> state := Some
                    \<lparr> phase = initial_phase, start_time = Some trigger_time,
                      elapsed_seconds = 0, total_to_evacuate = total, total_evacuated = 0,
                      bottlenecks = [], recommendations = recs,
                      estimated_complete_time = py_int estimated_time' \<rparr> \<rparr>))"

text \<open>
  The loop over \<^verbatim>\<open>zone.nearest_exits\<close> inside \<^verbatim>\<open>simulate_step\<close>, carrying the table
  of exits (their \<^verbatim>\<open>current_flow_rate\<close> is written) and \<^verbatim>\<open>zone_evacuated\<close>.
  \<open>exit_flow\<close> is \<^verbatim>\<open>evacuated_via_exit\<close>, lines 177 to 181. The travel time the source
  computes from the phase velocity is used nowhere.
\<close>

definition exit_flow :: "EmergencyExit \<Rightarrow> EvacuationZone \<Rightarrow> real \<Rightarrow> int \<Rightarrow> int" where
  "exit_flow x z dt_minutes zone_evacuated =
     (let density = real_of_int (ez_current_occupancy z) / ez_area_sqm z;
          congestion_factor = max (3 / 10) (1 - density / BOTTLENECK_DENSITY * (1 / 2));
          effective_rate = real_of_int (max_flow_rate x) * congestion_factor * dt_minutes
      in min (py_int effective_rate) (ez_current_occupancy z - zone_evacuated))"

fun exits_loop ::
  "EvacuationZone \<Rightarrow> real \<Rightarrow> string list \<Rightarrow> (string \<times> EmergencyExit) list \<Rightarrow> int
     \<Rightarrow> py_error + ((string \<times> EmergencyExit) list \<times> int)" where
  "exits_loop z dt_minutes [] ex zone_evacuated = Inr (ex, zone_evacuated)"
| "exits_loop z dt_minutes (eid # eids) ex zone_evacuated =
     (case map_of ex eid of
        None \<Rightarrow> exits_loop z dt_minutes eids ex zone_evacuated
      | Some x \<Rightarrow>
          (if \<not> is_accessible x then exits_loop z dt_minutes eids ex zone_evacuated
           else if ez_area_sqm z = 0 then Inl ZeroDivisionError
           else
             (let evacuated_via_exit = exit_flow x z dt_minutes zone_evacuated
              in if dt_minutes = 0 then Inl ZeroDivisionError
                 else exits_loop z dt_minutes eids
                        (dict_set ex eid
                           (x\<lparr>current_flow_rate :=
                                py_int (real_of_int evacuated_via_exit / dt_minutes)\<rparr>))
                        (zone_evacuated + evacuated_via_exit))))"

definition remaining_exits_capacity ::
  "(string \<times> EmergencyExit) list \<Rightarrow> EvacuationZone \<Rightarrow> int" where
  "remaining_exits_capacity ex z =
     sum_list (List.map_filter
       (\<lambda>eid. case map_of ex eid of
                 None \<Rightarrow> None
               | Some x \<Rightarrow> if is_accessible x then Some (max_flow_rate x) else None)
       (nearest_exits z))"

definition update_estimate :: "(string \<times> EmergencyExit) list \<Rightarrow> EvacuationZone \<Rightarrow> EvacuationZone" where
  "update_estimate ex z =
     (if ez_current_occupancy z > 0 \<and> remaining_exits_capacity ex z > 0
      then z\<lparr>estimated_time_remaining :=
               py_int (real_of_int (ez_current_occupancy z)
                         / real_of_int (remaining_exits_capacity ex z) * 60)\<rparr>
      else z)"

text \<open>
  The loop over \<^verbatim>\<open>self.state.zones.items()\<close>: it returns the exits, the zones as
  updated, and the number of people evacuated in the step (what the source adds to
  \<^verbatim>\<open>self.state.total_evacuated\<close> zone by zone).
\<close>

fun evacuate_zones ::
  "real \<Rightarrow> (string \<times> EmergencyExit) list \<Rightarrow> (string \<times> EvacuationZone) list
     \<Rightarrow> py_error + ((string \<times> EmergencyExit) list \<times> (string \<times> EvacuationZone) list \<times> int)" where
  "evacuate_zones dt_minutes ex [] = Inr (ex, [], 0)"
| "evacuate_zones dt_minutes ex ((zid, z) # rest) =
     (if ez_current_occupancy z \<le> 0 then
        (case evacuate_zones dt_minutes ex rest of
           Inl e \<Rightarrow> Inl e
         | Inr (ex', rest', n) \<Rightarrow> Inr (ex', (zid, z) # rest', n))
      else
        (case exits_loop z dt_minutes (nearest_exits z) ex 0 of
           Inl e \<Rightarrow> Inl e
         | Inr (ex1, zone_evacuated) \<Rightarrow>
             (let z1 = z\<lparr> evacuation_started := True,
                          ez_current_occupancy := ez_current_occupancy z - zone_evacuated,
                          evacuated_count := evacuated_count z + zone_evacuated \<rparr>;
                  z2 = update_estimate ex1 z1
              in case evacuate_zones dt_minutes ex1 rest of
                   Inl e \<Rightarrow> Inl e
                 | Inr (ex', rest', n) \<Rightarrow> Inr (ex', (zid, z2) # rest', zone_evacuated + n))))"

text \<open>
  \<^verbatim>\<open>_detect_bottlenecks\<close>: first the zones that still hold people, then the exits
  running at 90 percent or more of their rated flow.
\<close>

fun zone_bottlenecks :: "(string \<times> EvacuationZone) list \<Rightarrow> py_error + Bottleneck list" where
  "zone_bottlenecks [] = Inr []"
| "zone_bottlenecks ((zid, z) # rest) =
     (if ez_current_occupancy z \<le> 0 then zone_bottlenecks rest
      else if ez_area_sqm z = 0 then Inl ZeroDivisionError
      else
        (case zone_bottlenecks rest of
           Inl e \<Rightarrow> Inl e
         | Inr bs \<Rightarrow>
             (let d = real_of_int (ez_current_occupancy z) / ez_area_sqm z
              in Inr (if d \<ge> CRUSHING_DENSITY then ZoneBottleneck zid SevCritical d # bs
                      else if d \<ge> BOTTLENECK_DENSITY then ZoneBottleneck zid SevHigh d # bs
                      else bs))))"

definition exit_bottlenecks :: "(string \<times> EmergencyExit) list \<Rightarrow> Bottleneck list" where
  "exit_bottlenecks ex =
     List.map_filter
       (\<lambda>(eid, x). if real_of_int (current_flow_rate x) \<ge> real_of_int (max_flow_rate x) * (9 / 10)
                    then Some (ExitBottleneck eid (current_flow_rate x)) else None) ex"

definition detect_bottlenecks ::
  "(string \<times> EmergencyExit) list \<Rightarrow> (string \<times> EvacuationZone) list \<Rightarrow> py_error + Bottleneck list" where
  "detect_bottlenecks ex zs =
     (case zone_bottlenecks zs of
        Inl e \<Rightarrow> Inl e
      | Inr bs \<Rightarrow> Inr (bs @ exit_bottlenecks ex))"

text \<open>
  \<^verbatim>\<open>_update_phase\<close>. \<open>max_density\<close> is the \<^verbatim>\<open>max(..., default=0)\<close> over the zones
  with positive occupancy; \<open>update_phase\<close> is the chain of comparisons that follows.
\<close>

fun occupied_densities :: "(string \<times> EvacuationZone) list \<Rightarrow> py_error + real list" where
  "occupied_densities [] = Inr []"
| "occupied_densities ((zid, z) # rest) =
     (if ez_current_occupancy z > 0 then
        (if ez_area_sqm z = 0 then Inl ZeroDivisionError
         else
           (case occupied_densities rest of
              Inl e \<Rightarrow> Inl e
            | Inr ds \<Rightarrow> Inr (real_of_int (ez_current_occupancy z) / ez_area_sqm z # ds)))
      else occupied_densities rest)"

definition max_density :: "(string \<times> EvacuationZone) list \<Rightarrow> py_error + real" where
  "max_density zs =
     (case occupied_densities zs of
        Inl e \<Rightarrow> Inl e
      | Inr [] \<Rightarrow> Inr 0
      | Inr (d # ds) \<Rightarrow> Inr (fold max ds d))"

definition update_phase :: "EvacuationPhase \<Rightarrow> real \<Rightarrow> EvacuationPhase" where
  "update_phase ph md =
     (if md \<ge> CRUSHING_DENSITY then CRITICAL
      else if md \<ge> BOTTLENECK_DENSITY then PANIC
      else if ph = CRITICAL \<and> md < BOTTLENECK_DENSITY then PANIC
      else if ph = PANIC \<and> md < BOTTLENECK_DENSITY * (1 / 2) then ALERT
      else ph)"

definition generate_recommendations ::
  "EvacuationState \<Rightarrow> (string \<times> EmergencyExit) list \<Rightarrow> Recommendation list" where
  "generate_recommendations st ex =
     List.map_filter
       (\<lambda>b. case b of
               ZoneBottleneck zid SevCritical d \<Rightarrow>
                 Some (CriticalAction (if zid = [] then None else Some zid))
             | _ \<Rightarrow> None)
       (bottlenecks st)
     @ map (\<lambda>(eid, x). Obstruction (exit_id x)) (filter (\<lambda>(eid, x). \<not> is_accessible x) ex)
     @ [Progress (real_of_int (total_evacuated st)
                    / real_of_int (max (total_to_evacuate st) 1) * 100)]"

text \<open>
  \<^verbatim>\<open>simulate_step\<close>. An exception leaves the simulator object half updated in the
  source; the model returns the error alone.
\<close>

definition simulate_step :: "EvacuationSimulator \<Rightarrow> int \<Rightarrow> py_error + EvacuationSimulator" where
  "simulate_step sim dt_seconds =
     (case state sim of
        None \<Rightarrow> Inl ValueError
      | Some st \<Rightarrow>
          (case evacuate_zones (real_of_int dt_seconds / 60) (exits sim) (ev_zones sim) of
             Inl e \<Rightarrow> Inl e
           | Inr (ex', zs', n) \<Rightarrow>
               (case detect_bottlenecks ex' zs' of
                  Inl e \<Rightarrow> Inl e
                | Inr bns \<Rightarrow>
                    (case max_density zs' of
                       Inl e \<Rightarrow> Inl e
                     | Inr md \<Rightarrow>
                         (let st1 = st\<lparr> elapsed_seconds := elapsed_seconds st + dt_seconds,
                                        total_evacuated := total_evacuated st + n,
                                        bottlenecks := bns,
                                        phase := update_phase (phase st) md \<rparr>;
                              st2 = st1\<lparr> recommendations := generate_recommendations st1 ex' \<rparr>;
                              remaining = total_to_evacuate st2 - total_evacuated st2;
                              total_capacity = sum_list (map (max_flow_rate \<circ> snd)
                                                 (filter (\<lambda>(eid, x). is_accessible x) ex'));
                              st3 = (if remaining > 0
                                     then st2\<lparr> estimated_complete_time :=
                                            py_int (real_of_int remaining
                                                      / real_of_int (max total_capacity 1) * 60) \<rparr>
                                     else st2)
                          in Inr (sim\<lparr> exits := ex', ev_zones := zs', state := Some st3,
                                       history := history sim @ [(st3, zs')] \<rparr>))))))"

text \<open>A sequence of \<^verbatim>\<open>simulate_step\<close> calls; it stops at the first exception.\<close>

fun simulate_steps :: "EvacuationSimulator \<Rightarrow> int list \<Rightarrow> py_error + EvacuationSimulator" where
  "simulate_steps sim [] = Inr sim"
| "simulate_steps sim (dt # dts) =
     (case simulate_step sim dt of
        Inl e \<Rightarrow> Inl e
      | Inr sim' \<Rightarrow> simulate_steps sim' dts)"

text \<open>
  \<^verbatim>\<open>get_evacuation_summary\<close> returns a dictionary from strings to values of several
  types; the empty dictionary is the empty list. \<open>py_round\<close> is \<^verbatim>\<open>round(x, n)\<close>, ties
  to even.
\<close>

definition py_round :: "nat \<Rightarrow> real \<Rightarrow> real" where
  "py_round n x =
     (let y = x * 10 ^ n; f = \<lfloor>y\<rfloor>; r = y - real_of_int f
      in real_of_int (if r < 1 / 2 then f else if r > 1 / 2 then f + 1
                      else if even f then f else f + 1) / 10 ^ n)"

datatype SummaryValue = SStr string | SInt int | SFloat real | SRecs "Recommendation list"

definition phase_value :: "EvacuationPhase \<Rightarrow> string" where
  "phase_value ph = (case ph of NORMAL \<Rightarrow> ''normal'' | ALERT \<Rightarrow> ''alert''
                     | PANIC \<Rightarrow> ''panic'' | CRITICAL \<Rightarrow> ''critical'')"

definition get_evacuation_summary :: "EvacuationSimulator \<Rightarrow> (string \<times> SummaryValue) list" where
  "get_evacuation_summary sim =
     (case state sim of
        None \<Rightarrow> []
      | Some st \<Rightarrow>
          (let zs = map snd (ev_zones sim);
               zones_cleared = length (filter (\<lambda>z. ez_current_occupancy z = 0 \<and> evacuated_count z > 0) zs);
               zones_total = length (filter (\<lambda>z. evacuated_count z > 0 \<or> ez_current_occupancy z > 0) zs)
           in [(''status'', SStr (if total_evacuated st \<ge> total_to_evacuate st
                                   then ''complete'' else ''in_progress'')),
               (''phase'', SStr (phase_value (phase st))),
               (''elapsed_seconds'', SInt (elapsed_seconds st)),
               (''elapsed_minutes'', SFloat (py_round 1 (real_of_int (elapsed_seconds st) / 60))),
               (''total_evacuated'', SInt (total_evacuated st)),
               (''total_to_evacuate'', SInt (total_to_evacuate st)),
               (''progress_percent'',
                  SFloat (py_round 1 (real_of_int (total_evacuated st)
                                        / real_of_int (max (total_to_evacuate st) 1) * 100))),
               (''zones_cleared'', SInt (int zones_cleared)),
               (''zones_total'', SInt (int zones_total)),
               (''bottlenecks_detected'', SInt (int (length (bottlenecks st)))),
               (''estimated_remaining_minutes'',
                  SFloat (py_round 1 (real_of_int (estimated_complete_time st) / 60))),
               (''recommendations'', SRecs (recommendations st))]))"

definition evacuated_counts :: "(string \<times> EvacuationZone) list \<Rightarrow> int" where
  "evacuated_counts zs = sum_list (map (evacuated_count \<circ> snd) zs)"

text \<open>
  Notions used to state the properties of a step: the density of a zone; exits with
  non-negative rated flow; zones of positive area; and \<open>zones_shrunk zs zs'\<close>, which
  says that \<open>zs'\<close> holds the same zones as \<open>zs\<close>, in the same order and with the same
  areas, none with a larger occupancy.
\<close>

definition ez_density :: "EvacuationZone \<Rightarrow> real" where
  "ez_density z = real_of_int (ez_current_occupancy z) / ez_area_sqm z"

definition flows_nonneg :: "(string \<times> EmergencyExit) list \<Rightarrow> bool" where
  "flows_nonneg ex = list_all (\<lambda>(k, x). 0 \<le> max_flow_rate x) ex"

definition areas_positive :: "(string \<times> EvacuationZone) list \<Rightarrow> bool" where
  "areas_positive zs = list_all (\<lambda>(k, z). 0 < ez_area_sqm z) zs"

definition zones_shrunk ::
  "(string \<times> EvacuationZone) list \<Rightarrow> (string \<times> EvacuationZone) list \<Rightarrow> bool" where
  "zones_shrunk zs zs' =
     list_all2 (\<lambda>(k, z) (k', z'). k' = k \<and> ez_area_sqm z' = ez_area_sqm z
                  \<and> ez_current_occupancy z' \<le> ez_current_occupancy z) zs zs'"

subsection \<open>A concrete evacuation\<close>

text \<open>
  The scenario of the specification: 10000 occupants in one zone, one exit of 2000
  persons per minute. \<open>started_stadium ph\<close> is that simulator with the state
  \<^verbatim>\<open>start_evacuation\<close> is written to build for it (estimate 450 seconds).
\<close>

definition stadium_exits :: "EmergencyExit list" where
  "stadium_exits = [\<lparr> exit_id = ''E1'', ex_name = ''North'', width = 40, max_flow_rate = 2000,
                      connects_to_zone = ''Z1'', is_accessible = True, current_flow_rate = 0 \<rparr>]"

definition stadium_zones :: "EvacuationZone list" where
  "stadium_zones = [\<lparr> ez_zone_id = ''Z1'', ez_current_occupancy = 10000, ez_area_sqm = 5000,
                      nearest_exits = [''E1''], distance_to_exits = [(''E1'', 80)],
                      evacuation_started = False, evacuated_count = 0,
                      estimated_time_remaining = 0 \<rparr>]"

definition started_stadium :: "EvacuationPhase \<Rightarrow> EvacuationSimulator" where
  "started_stadium ph = (new_simulator stadium_exits stadium_zones)
     \<lparr> state := Some \<lparr> phase = ph, start_time = Some 0, elapsed_seconds = 0,
                        total_to_evacuate = 10000, total_evacuated = 0, bottlenecks = [],
                        recommendations = [], estimated_complete_time = 450 \<rparr> \<rparr>"

section \<open>FacilitySimulator (engine/facilities.py)\<close>

datatype FacilityType =
    RESTROOM_MALE | RESTROOM_FEMALE | RESTROOM_ACCESSIBLE | FOOD_COURT | FOOD_STALL
  | MERCHANDISE | ATM | FIRST_AID

record Facility =
  facility_id :: string
  facility_type :: FacilityType
  f_name :: string
  location :: string
  f_capacity :: int
  service_time_avg :: real
  service_time_std :: real
  current_queue :: int
  total_served :: int
  is_operational :: bool

record FacilityState =
  fs_facility_id :: string
  fs_current_queue :: int
  fs_wait_time_minutes :: real
  utilization_percent :: real
  status :: string

record FacilitySimulator =
  facilities :: "(string \<times> Facility) list"
  f_history :: "(datetime \<times> (string \<times> int) list) list"

definition DEMAND_MULTIPLIERS :: "(string \<times> real) list" where
  "DEMAND_MULTIPLIERS =
     [(''pre_event'', 1 / 2), (''entry'', 1), (''event_start'', 3 / 10), (''halftime'', 5),
      (''intermission'', 4), (''event_end'', 1 / 2), (''exit'', 2 / 10)]"

definition base_rate :: "FacilityType \<Rightarrow> int \<Rightarrow> int \<Rightarrow> real" where
  "base_rate ft zone_pop dt_seconds =
     (if ft = RESTROOM_MALE \<or> ft = RESTROOM_FEMALE
        then real_of_int zone_pop * (2 / 1000) * (real_of_int dt_seconds / 60)
      else if ft = FOOD_COURT
        then real_of_int zone_pop * (5 / 1000) * (real_of_int dt_seconds / 60)
      else if ft = MERCHANDISE
        then real_of_int zone_pop * (1 / 1000) * (real_of_int dt_seconds / 60)
      else real_of_int zone_pop * (1 / 1000) * (real_of_int dt_seconds / 60))"

definition wait_status :: "real \<Rightarrow> string" where
  "wait_status wait_time =
     (if wait_time > 15 then ''overcrowded'' else if wait_time > 7 then ''busy'' else ''normal'')"

text \<open>
  The loop of \<^verbatim>\<open>FacilitySimulator.simulate_step\<close> over the facilities. The draws of
  \<^verbatim>\<open>np.random.uniform(0.8, 1.2)\<close>, one for each operational facility, come from numpy's
  global generator: they are the parameter \<open>uniform\<close>, read at the index \<open>i\<close> of the draw.
  The loop returns the facilities as updated and the list of states.
\<close>

fun facilities_loop ::
  "real \<Rightarrow> (nat \<Rightarrow> real) \<Rightarrow> nat \<Rightarrow> (string \<times> int) list \<Rightarrow> int \<Rightarrow> (string \<times> Facility) list
     \<Rightarrow> py_error + ((string \<times> Facility) list \<times> FacilityState list)" where
  "facilities_loop demand_mult uniform i zone_populations dt_seconds [] = Inr ([], [])"
| "facilities_loop demand_mult uniform i zone_populations dt_seconds ((fid, f) # rest) =
     (if \<not> is_operational f then
        (case facilities_loop demand_mult uniform i zone_populations dt_seconds rest of
           Inl e \<Rightarrow> Inl e
         | Inr (fs, states) \<Rightarrow> Inr ((fid, f) # fs, states))
      else
        (let zone_pop = (case map_of zone_populations (location f) of None \<Rightarrow> 0 | Some n \<Rightarrow> n);
             arrivals = py_int (base_rate (facility_type f) zone_pop dt_seconds
                                  * demand_mult * uniform i)
         in if service_time_avg f = 0 then Inl ZeroDivisionError
            else
              (let service_rate = real_of_int (f_capacity f * 60) / service_time_avg f;
                   completions = py_int (min (real_of_int (current_queue f + arrivals))
                                             (service_rate * (real_of_int dt_seconds / 60)));
                   queue' = max 0 (current_queue f + arrivals - completions)
               in if 60 * f_capacity f = 0 then Inl ZeroDivisionError
                  else
                    (let wait_time = real_of_int queue' * service_time_avg f
                                       / real_of_int (60 * f_capacity f);
                         max_service = service_rate * (real_of_int dt_seconds / 60);
                         utilization = (if max_service > 0
                                        then real_of_int completions / max_service * 100 else 0);
                         st = \<lparr> fs_facility_id = fid, fs_current_queue = queue',
                                fs_wait_time_minutes = py_round 1 wait_time,
                                utilization_percent = py_round 1 (min utilization 100),
                                status = wait_status wait_time \<rparr>
                     in case facilities_loop demand_mult uniform (Suc i) zone_populations
                               dt_seconds rest of
                          Inl e \<Rightarrow> Inl e
                        | Inr (fs, states) \<Rightarrow>
                            Inr ((fid, f\<lparr> current_queue := queue',
                                         total_served := total_served f + completions \<rparr>) # fs,
                                 st # states)))))"

definition facility_simulate_step ::
  "FacilitySimulator \<Rightarrow> (nat \<Rightarrow> real) \<Rightarrow> datetime \<Rightarrow> string \<Rightarrow> (string \<times> int) list \<Rightarrow> int
     \<Rightarrow> py_error + (FacilitySimulator \<times> FacilityState list)" where
  "facility_simulate_step sim uniform current_time event_phase zone_populations dt_seconds =
     (let demand_mult = (case map_of DEMAND_MULTIPLIERS event_phase of None \<Rightarrow> 1 | Some m \<Rightarrow> m)
      in case facilities_loop demand_mult uniform 0 zone_populations dt_seconds (facilities sim) of
           Inl e \<Rightarrow> Inl e
         | Inr (fs, states) \<Rightarrow>
             Inr (sim\<lparr> facilities := fs,
                       f_history := f_history sim
                          @ [(current_time, map (\<lambda>st. (fs_facility_id st, fs_current_queue st)) states)] \<rparr>,
                  states))"

text \<open>A restroom like those of the venue configurations, but with no service point.\<close>

definition closed_restroom :: Facility where
  "closed_restroom = \<lparr> facility_id = ''north-restroom-f'', facility_type = RESTROOM_FEMALE,
       f_name = ''North Female Restroom'', location = ''north-stand'', f_capacity = 0,
       service_time_avg = 180, service_time_std = 45, current_queue = 0, total_served = 0,
       is_operational = True \<rparr>"

section \<open>Arrival curve (engine/simulation.py, generate_arrival_curve)\<close>

text \<open>
  \<^verbatim>\<open>scipy.stats.truncnorm.pdf\<close> is not part of the repository: it is the parameter
  \<open>pdf\<close>, applied as \<open>pdf x a b loc scale\<close>. \<open>arange\<close> is \<^verbatim>\<open>np.arange(0, stop)\<close>. The
  division by the sum of the curve is numpy's: on a non-empty curve a zero sum gives
  not-a-number values and no exception.
\<close>

definition arange :: "real \<Rightarrow> real list" where
  "arange stop = map real [0..<nat \<lceil>stop\<rceil>]"

definition bell_curve ::
  "(real \<Rightarrow> real \<Rightarrow> real \<Rightarrow> real \<Rightarrow> real \<Rightarrow> real) \<Rightarrow> real \<Rightarrow> real \<Rightarrow> real \<Rightarrow> real list
     \<Rightarrow> py_error + real list" where
  "bell_curve pdf duration_minutes peak std minutes =
     (if std = 0 then Inl ZeroDivisionError
      else Inr (map (\<lambda>m. pdf m (- peak / std) ((duration_minutes - peak) / std) peak std) minutes))"

definition wave_curve ::
  "(real \<Rightarrow> real \<Rightarrow> real \<Rightarrow> real \<Rightarrow> real \<Rightarrow> real) \<Rightarrow> real \<Rightarrow> real \<Rightarrow> real" where
  "wave_curve pdf duration_minutes m =
     3 / 10 * pdf m (- 30 / 20) (30 / 20) (duration_minutes * (3 / 10)) 20
     + 4 / 10 * pdf m (- 30 / 20) (30 / 20) (duration_minutes * (5 / 10)) 20
     + 3 / 10 * pdf m (- 30 / 20) (30 / 20) (duration_minutes * (7 / 10)) 20"

definition generate_arrival_curve ::
  "(real \<Rightarrow> real \<Rightarrow> real \<Rightarrow> real \<Rightarrow> real \<Rightarrow> real) \<Rightarrow> int \<Rightarrow> datetime \<Rightarrow> datetime \<Rightarrow> string
     \<Rightarrow> py_error + (real \<times> real) list" where
  "generate_arrival_curve pdf total_attendees gates_open event_start pattern =
     (let duration_minutes = (event_start - gates_open) / 60;
          minutes = arange (duration_minutes + 1)
      in case (if pattern = ''normal''
                 then bell_curve pdf duration_minutes (duration_minutes * (5 / 10))
                        (duration_minutes * (25 / 100)) minutes
               else if pattern = ''early_rush''
                 then bell_curve pdf duration_minutes (duration_minutes * (3 / 10))
                        (duration_minutes * (15 / 100)) minutes
               else if pattern = ''late_surge''
                 then bell_curve pdf duration_minutes (duration_minutes * (8 / 10))
                        (duration_minutes * (1 / 10)) minutes
               else Inr (map (wave_curve pdf duration_minutes) minutes)) of
           Inl e \<Rightarrow> Inl e
         | Inr curve \<Rightarrow>
             (if curve \<noteq> [] \<and> sum_list curve = 0 then Inl NanResult
              else Inr (zip minutes
                          (map (\<lambda>c. c / sum_list curve * real_of_int total_attendees) curve))))"

text \<open>
  A mixture of truncated normal peaks given by its components: weight, centre and
  scale of each peak, every peak truncated at 1.5 scales on either side of its centre.
  \<open>wave_components\<close> lists the components written in lines 318 to 320 of the source.
\<close>

definition mixture ::
  "(real \<Rightarrow> real \<Rightarrow> real \<Rightarrow> real \<Rightarrow> real \<Rightarrow> real) \<Rightarrow> (real \<times> real \<times> real) list \<Rightarrow> real \<Rightarrow> real" where
  "mixture pdf comps m =
     sum_list (map (\<lambda>(w, centre, scale). w * pdf m (- 3 / 2) (3 / 2) centre scale) comps)"

definition wave_components :: "real \<Rightarrow> (real \<times> real \<times> real) list" where
  "wave_components duration_minutes =
     [(3 / 10, duration_minutes * (3 / 10), 20),
      (4 / 10, duration_minutes * (5 / 10), 20),
      (3 / 10, duration_minutes * (7 / 10), 20)]"

text \<open>
  A stand-in for the density, used to run the function on concrete inputs: the uniform
  density on the interval to which \<^verbatim>\<open>truncnorm\<close> truncates.
\<close>

definition box_pdf :: "real \<Rightarrow> real \<Rightarrow> real \<Rightarrow> real \<Rightarrow> real \<Rightarrow> real" where
  "box_pdf x a b loc scale =
     (if a \<le> (x - loc) / scale \<and> (x - loc) / scale \<le> b then 1 / ((b - a) * scale) else 0)"

section \<open>Properties\<close>

lemma py_int_le: "0 \<le> x \<Longrightarrow> real_of_int (py_int x) \<le> x"
  by (simp add: py_int_def)

lemma py_int_nonneg: "0 \<le> x \<Longrightarrow> 0 \<le> py_int x"
  by (simp add: py_int_def)

lemma py_int_mono: "x \<le> y \<Longrightarrow> py_int x \<le> py_int y"
  unfolding py_int_def
  by (smt (verit, best) ceiling_mono floor_mono floor_le_ceiling zero_le_floor ceiling_le_zero)


lemma py_int_unit: "0 \<le> x \<Longrightarrow> x < 1 \<Longrightarrow> py_int x = 0"
  by (simp add: py_int_def floor_eq_iff)

lemma py_int_one: "1 \<le> x \<Longrightarrow> x < 2 \<Longrightarrow> py_int x = 1"
  by (simp add: py_int_def floor_eq_iff)

lemma dict_get_Nil [simp]: "dict_get [] k = Inl KeyError"
  by (simp add: dict_get_def)

lemma dict_get_Cons [simp]:
  "dict_get ((k', v) # kvs) k = (if k' = k then Inr v else dict_get kvs k)"
  by (simp add: dict_get_def)

lemmas engine_defs =
  simulate_timestep_def process_arrivals_def rng_random_def py_int_def process_gates_def
  calculate_flow_reduction_def get_zone_def gate_throughput_def get_density_reduction_def
  default_params_def process_zone_flow_def update_densities_def get_risk_level_def
  List.map_filter_def Let_def initialize_state_def

subsection \<open>Conservation of attendees\<close>

lemma distribute_arrivals_total:
  "distribute_arrivals a c gs s = Inr s' \<Longrightarrow> attendee_total s' = attendee_total s"
proof (induction gs arbitrary: s)
  case Nil
  then show ?case by simp
next
  case (Cons g gs)
  then show ?case
    by (auto simp: attendee_total_def Let_def split: if_splits sum.splits)
qed

lemma process_arrivals_total:
  "process_arrivals e v s r dt = Inr (e', s') \<Longrightarrow> attendee_total s' = attendee_total s"
  by (auto simp: process_arrivals_def Let_def rng_random_def
           split: if_splits sum.splits prod.splits dest: distribute_arrivals_total)

lemma add_to_zones_totals:
  "add_to_zones k zs s = Inr s' \<Longrightarrow>
     total_approaching s' = total_approaching s \<and> total_queuing s' = total_queuing s \<and>
     total_inside s' = total_inside s \<and> total_exited s' = total_exited s \<and>
     gate_states s' = gate_states s"
  by (induction k zs s rule: add_to_zones.induct) (auto split: sum.splits)

lemma gates_loop_totals:
  "gates_loop p v dt gs s n = Inr (s', n') \<Longrightarrow>
     total_approaching s' = total_approaching s \<and> total_inside s' = total_inside s \<and>
     total_exited s' = total_exited s \<and> total_queuing s' + n' = total_queuing s + n"
proof (induction gs arbitrary: s n)
  case Nil
  then show ?case by simp
next
  case (Cons g gs)
  then show ?case
    by (fastforce simp: Let_def split: if_splits sum.splits dest!: add_to_zones_totals)
qed

lemma process_gates_total:
  "process_gates p v s dt = Inr s' \<Longrightarrow> attendee_total s' = attendee_total s"
  by (auto simp: process_gates_def attendee_total_def split: sum.splits if_splits prod.splits
           dest!: gates_loop_totals)

lemma flow_targets_total:
  "flow_targets p dt src red n ts s = Inr s' \<Longrightarrow> attendee_total s' = attendee_total s"
proof (induction ts arbitrary: s)
  case Nil
  then show ?case by simp
next
  case (Cons t ts)
  then show ?case
    by (fastforce simp: Let_def attendee_total_def split: if_splits sum.splits)
qed

lemma zones_loop_total:
  "zones_loop p v dt zs s = Inr s' \<Longrightarrow> attendee_total s' = attendee_total s"
proof (induction zs arbitrary: s)
  case Nil
  then show ?case by simp
next
  case (Cons z zs)
  then show ?case
    by (fastforce simp: Let_def split: if_splits sum.splits dest: flow_targets_total)
qed

lemma densities_loop_total:
  "densities_loop p zs s = Inr s' \<Longrightarrow> attendee_total s' = attendee_total s"
proof (induction zs arbitrary: s)
  case Nil
  then show ?case by simp
next
  case (Cons z zs)
  then show ?case
    by (fastforce simp: Let_def attendee_total_def split: if_splits sum.splits)
qed

lemma sample_step:
  "simulate_timestep sample_engine sample_venue sample_state 60 300
     = Inr (sample_engine\<lparr>rng_pos := 1\<rparr>, sample_state_after)"
  by (simp add: engine_defs sample_engine_def sample_venue_def sample_state_def
        sample_state_after_def sample_stream_def)

text \<open>
  C1. Whenever \<open>simulate_timestep\<close> returns a state, for any venue, state, time step
  and arrival rate, the sum of the approaching, queuing, inside and exited counters of
  the returned state equals that of the state it was given.
\<close>

theorem simulate_timestep_conservation:
  assumes "simulate_timestep e venue s dt_seconds arrival_rate = Inr (e', s')"
  shows "total_approaching s' + total_queuing s' + total_inside s' + total_exited s'
           = total_approaching s + total_queuing s + total_inside s + total_exited s"
proof -
  let ?s0 = "s\<lparr> timestamp := timestamp s + dt_seconds,
                  simulation_time_minutes := simulation_time_minutes s + dt_seconds / 60 \<rparr>"
  from assms obtain e1 s1 s2 s3 where
    arrivals: "process_arrivals e venue ?s0 arrival_rate dt_seconds = Inr (e1, s1)" and
    through: "process_gates (params e) venue s1 dt_seconds = Inr s2" and
    flow: "process_zone_flow (params e) venue s2 dt_seconds = Inr s3" and
    dens: "update_densities (params e) venue s3 = Inr s'"
    by (auto simp: simulate_timestep_def Let_def split: sum.splits prod.splits)
  have "attendee_total s' = attendee_total ?s0"
    using process_arrivals_total[OF arrivals] process_gates_total[OF through]
      zones_loop_total[OF flow[unfolded process_zone_flow_def]]
      densities_loop_total[OF dens[unfolded update_densities_def]] by simp
  then show ?thesis by (simp add: attendee_total_def)
qed

text \<open>
  Witness for C1: the scenario step (arrival rate 300 per minute, 60 seconds) returns a
  state, and the four counters 4700 + 100 + 200 + 0 still sum to the 5000 expected.
\<close>

theorem simulate_timestep_conservation_witness:
  "simulate_timestep sample_engine sample_venue sample_state 60 300
     = Inr (sample_engine\<lparr>rng_pos := 1\<rparr>, sample_state_after)
   \<and> total_approaching sample_state_after + total_queuing sample_state_after
       + total_inside sample_state_after + total_exited sample_state_after = 5000"
  using simulate_timestep_conservation[OF sample_step] sample_step
  by (simp add: sample_state_def initialize_state_def)


subsection \<open>The generator inside the engine\<close>

text \<open>
  C4, as stated, fails: the engine owns a generator that advances at every call in which
  somebody is still approaching. Two successive calls on the default engine with the
  same venue, the same input state, \<open>dt_seconds = 10\<close> and \<open>arrival_rate = 3\<close> draw
  0.77 and then 0.44: the first call brings one arrival (4999 left approaching), the
  second none (5000 left), so the two returned states differ.
\<close>

theorem simulate_timestep_hidden_rng_counterexample:
  "(case simulate_twice sample_engine sample_venue sample_state 10 3 of
      Inl err \<Rightarrow> False
    | Inr (s1, s2) \<Rightarrow>
        total_approaching s1 = 4999 \<and> total_approaching s2 = 5000 \<and> s1 \<noteq> s2)"
  by (simp add: simulate_twice_def engine_defs sample_engine_def sample_venue_def
        sample_state_def sample_stream_def)

text \<open>
  The difference does not hang on the values the generator happens to return: in the
  scenario, any two draws \<open>r1\<close> and \<open>r2\<close> are told apart by an arrival rate \<open>a\<close> per
  minute with \<open>a + r1 < 1 \<le> a + r2\<close>, one call admitting nobody to the queues and the
  other one person.
\<close>

lemma distinct_draws_distinguished:
  assumes "0 \<le> a + r1" "a + r1 < 1" "1 \<le> a + r2" "a + r2 < 2"
  shows "map_sum id (total_approaching \<circ> snd)
           (simulate_timestep (constant_engine r1 n) sample_venue sample_state 60 a) = Inr 5000
       \<and> map_sum id (total_approaching \<circ> snd)
           (simulate_timestep (constant_engine r2 n) sample_venue sample_state 60 a) = Inr 4999"
proof -
  let ?S0 = "sample_state\<lparr> timestamp := timestamp sample_state + 60,
                  simulation_time_minutes := simulation_time_minutes sample_state + 60 / 60 \<rparr>"
  have j1: "py_int (a + r1) = 0"
    using assms(1,2) by (simp add: py_int_unit)
  have j2: "py_int (a + r2) = 1"
    using assms(3,4) by (simp add: py_int_one)
  have one: "py_int 1 = 1"
    by (simp add: py_int_def)
  have pa1: "process_arrivals (constant_engine r1 n) sample_venue ?S0 a 60
               = Inr (constant_engine r1 (Suc n), ?S0)"
    unfolding process_arrivals_def rng_random_def Let_def
    by (simp add: j1 constant_engine_def sample_state_def initialize_state_def)
  have pa2: "process_arrivals (constant_engine r2 n) sample_venue ?S0 a 60
               = Inr (constant_engine r2 (Suc n),
                      ?S0\<lparr> gate_states := [(''G1'', \<lparr>queue_length = 1, throughput_rate = 0,
                                  wait_time_minutes = 0, is_congested = False\<rparr>)],
                           total_approaching := 4999, total_queuing := 1 \<rparr>)"
    unfolding process_arrivals_def rng_random_def Let_def
    by (simp add: j2 one constant_engine_def sample_state_def initialize_state_def
          sample_venue_def)
  have p: "params (constant_engine r n) = default_params" for r n
    by (simp add: constant_engine_def)
  have "map_sum id (total_approaching \<circ> snd)
           (simulate_timestep (constant_engine r1 n) sample_venue sample_state 60 a) = Inr 5000"
    unfolding simulate_timestep_def Let_def pa1 p
    by (simp add: process_gates_def calculate_flow_reduction_def get_zone_def gate_throughput_def
          get_density_reduction_def default_params_def process_zone_flow_def update_densities_def
          get_risk_level_def List.map_filter_def Let_def initialize_state_def sample_venue_def
          sample_state_def py_int_def)
  moreover have "map_sum id (total_approaching \<circ> snd)
           (simulate_timestep (constant_engine r2 n) sample_venue sample_state 60 a) = Inr 4999"
    unfolding simulate_timestep_def Let_def pa2 p
    by (simp add: process_gates_def calculate_flow_reduction_def get_zone_def gate_throughput_def
          get_density_reduction_def default_params_def process_zone_flow_def update_densities_def
          get_risk_level_def List.map_filter_def Let_def initialize_state_def sample_venue_def
          sample_state_def py_int_def)
  ultimately show ?thesis by simp
qed

lemma process_arrivals_same_draw:
  assumes "total_approaching s \<le> 0 \<or> rng_stream e1 (rng_pos e1) = rng_stream e2 (rng_pos e2)"
  shows "map_sum id snd (process_arrivals e1 v s r dt)
           = map_sum id snd (process_arrivals e2 v s r dt)"
  using assms
  by (auto simp: process_arrivals_def rng_random_def Let_def split: sum.splits)

text \<open>
  C4, amended. The state \<open>simulate_timestep\<close> returns (or the error it raises) is a
  function of the venue, the input state, \<open>dt_seconds\<close>, \<open>arrival_rate\<close>, the engine's
  parameters and the next draw of the engine's generator; the draw is not even made
  when nobody is approaching. Two engines with equal parameters and an equal next draw
  give equal results, whatever else their generators hold.
\<close>

theorem simulate_timestep_same_draw:
  assumes "params e1 = params e2"
    and "total_approaching s \<le> 0 \<or> rng_stream e1 (rng_pos e1) = rng_stream e2 (rng_pos e2)"
  shows "map_sum id snd (simulate_timestep e1 venue s dt_seconds arrival_rate)
           = map_sum id snd (simulate_timestep e2 venue s dt_seconds arrival_rate)"
proof -
  let ?s0 = "s\<lparr> timestamp := timestamp s + dt_seconds,
                  simulation_time_minutes := simulation_time_minutes s + dt_seconds / 60 \<rparr>"
  have "map_sum id snd (process_arrivals e1 venue ?s0 arrival_rate dt_seconds)
          = map_sum id snd (process_arrivals e2 venue ?s0 arrival_rate dt_seconds)"
    using assms(2) by (intro process_arrivals_same_draw) simp
  then show ?thesis
    using assms(1)
    by (auto simp: simulate_timestep_def Let_def split: sum.splits prod.splits)
qed

text \<open>
  Witness for C4: the default engine at its first draw and an engine that has already
  made seven draws and returns 0.7739560485559633 at each agree on the scenario step.
\<close>

theorem simulate_timestep_same_draw_witness:
  "params sample_engine = params (constant_engine (7739560485559633 / 10 ^ 16) 7)
   \<and> rng_stream sample_engine (rng_pos sample_engine)
       = rng_stream (constant_engine (7739560485559633 / 10 ^ 16) 7)
           (rng_pos (constant_engine (7739560485559633 / 10 ^ 16) 7))
   \<and> map_sum id snd (simulate_timestep sample_engine sample_venue sample_state 10 3)
       = map_sum id snd (simulate_timestep (constant_engine (7739560485559633 / 10 ^ 16) 7)
                           sample_venue sample_state 10 3)"
proof -
  have p: "params sample_engine = params (constant_engine (7739560485559633 / 10 ^ 16) 7)"
    by (simp add: sample_engine_def constant_engine_def)
  have d: "rng_stream sample_engine (rng_pos sample_engine)
       = rng_stream (constant_engine (7739560485559633 / 10 ^ 16) 7)
           (rng_pos (constant_engine (7739560485559633 / 10 ^ 16) 7))"
    by (simp add: sample_engine_def constant_engine_def sample_stream_def)
  show ?thesis
    using p d simulate_timestep_same_draw[OF p disjI2[OF d]] by blast
qed

subsection \<open>Flow reduction\<close>

text \<open>
  C6, as stated, fails in its last part: a gate of 5 persons per minute with 100 people
  queuing admits nobody in a 10 second step (5 * 10 / 60 is below one person) whether
  the zone behind it has density 5.0 or 0.2, so the crowded case does not admit strictly
  fewer.
\<close>

theorem gate_throttling_counterexample:
  "entered default_params narrow_venue (narrow_state 5) 10 = Inr 0
   \<and> entered default_params narrow_venue (narrow_state (1 / 5)) 10 = Inr 0"
  by (simp add: entered_def engine_defs narrow_venue_def narrow_state_def)

lemma py_int_tenth_less:
  assumes "1 \<le> py_int x"
  shows "py_int (x * (1 / 10)) < py_int x"
proof -
  from assms have x1: "1 \<le> x"
    by (simp add: py_int_def split: if_splits; linarith)
  then have trunc: "py_int x = \<lfloor>x\<rfloor>" "py_int (x * (1 / 10)) = \<lfloor>x * (1 / 10)\<rfloor>"
    by (simp_all add: py_int_def)
  have "real_of_int \<lfloor>x * (1 / 10)\<rfloor> \<le> x * (1 / 10)"
    by (rule of_int_floor_le)
  moreover have "x - 1 < real_of_int \<lfloor>x\<rfloor>"
    by linarith
  moreover have "1 \<le> real_of_int \<lfloor>x\<rfloor>"
    using x1 by (simp add: le_floor_iff)
  ultimately have "real_of_int \<lfloor>x * (1 / 10)\<rfloor> < real_of_int \<lfloor>x\<rfloor>"
    using x1 by linarith
  then show ?thesis
    using trunc by simp
qed

text \<open>
  C6, amended. With the default parameters the flow-reduction factor is the first match
  of the ascending chain 0.5, 2, 4: it is 1 below the comfortable threshold, its values
  are exactly 1, 0.7, 0.4 and 0.1, and it never increases with density. A gate with
  a non-empty queue that feeds a zone at or above the dangerous breakpoint admits at
  most what it would admit at comfortable density, and strictly fewer whenever the
  comfortable admission is at least one person (otherwise both admit nobody).
\<close>

theorem flow_reduction_tiers:
  fixes d d' hi lo dt :: real and cap q :: int
  shows "get_density_reduction default_params d
           = (if d < 1 / 2 then 1 else if d < 2 then 7 / 10 else if d < 4 then 4 / 10 else 1 / 10)
       \<and> (d < density_comfortable default_params \<longrightarrow> get_density_reduction default_params d = 1)
       \<and> range (get_density_reduction default_params) = {1, 7 / 10, 4 / 10, 1 / 10}
       \<and> (d \<le> d' \<longrightarrow> get_density_reduction default_params d'
                          \<le> get_density_reduction default_params d)
       \<and> (density_dangerous default_params \<le> hi \<and> lo < density_comfortable default_params
            \<and> 0 \<le> dt \<and> 0 \<le> cap \<and> 0 < q \<longrightarrow>
            gate_throughput cap dt q (get_density_reduction default_params hi)
              \<le> gate_throughput cap dt q (get_density_reduction default_params lo)
            \<and> (1 \<le> gate_throughput cap dt q (get_density_reduction default_params lo) \<longrightarrow>
                 gate_throughput cap dt q (get_density_reduction default_params hi)
                   < gate_throughput cap dt q (get_density_reduction default_params lo)))"
proof (intro conjI impI)
  show eq: "get_density_reduction default_params d
      = (if d < 1 / 2 then 1 else if d < 2 then 7 / 10 else if d < 4 then 4 / 10 else 1 / 10)"
    for d
    by (simp add: get_density_reduction_def default_params_def)
  show "range (get_density_reduction default_params) = {1, 7 / 10, 4 / 10, 1 / 10}"
  proof
    show "range (get_density_reduction default_params) \<subseteq> {1, 7 / 10, 4 / 10, 1 / 10}"
      by (auto simp: eq)
    have "get_density_reduction default_params 0 = 1"
      "get_density_reduction default_params 1 = 7 / 10"
      "get_density_reduction default_params 3 = 4 / 10"
      "get_density_reduction default_params 5 = 1 / 10"
      by (simp_all add: eq)
    then show "{1, 7 / 10, 4 / 10, 1 / 10} \<subseteq> range (get_density_reduction default_params)"
      by (metis (no_types, lifting) insert_subset empty_subsetI rangeI)
  qed
  show "get_density_reduction default_params d = 1" if "d < density_comfortable default_params"
    using that by (simp add: get_density_reduction_def default_params_def)
  show "get_density_reduction default_params d' \<le> get_density_reduction default_params d"
    if "d \<le> d'"
    using that by (simp add: eq)
next
  assume h: "density_dangerous default_params \<le> hi \<and> lo < density_comfortable default_params
            \<and> 0 \<le> dt \<and> 0 \<le> cap \<and> 0 < q"
  define x where "x = min (real_of_int cap * dt / 60) (real_of_int q)"
  have x0: "0 \<le> x"
    using h by (simp add: x_def)
  have hi: "get_density_reduction default_params hi = 1 / 10"
    and lo: "get_density_reduction default_params lo = 1"
    using h by (simp_all add: get_density_reduction_def default_params_def)
  show "gate_throughput cap dt q (get_density_reduction default_params hi)
              \<le> gate_throughput cap dt q (get_density_reduction default_params lo)"
    unfolding gate_throughput_def hi lo x_def[symmetric]
    using x0 by (intro py_int_mono) simp
  assume "1 \<le> gate_throughput cap dt q (get_density_reduction default_params lo)"
  then show "gate_throughput cap dt q (get_density_reduction default_params hi)
                   < gate_throughput cap dt q (get_density_reduction default_params lo)"
    unfolding gate_throughput_def hi lo x_def[symmetric]
    using py_int_tenth_less[of x] by simp
qed

text \<open>
  Witness for C6: the scenario gate (200 per minute, 60 seconds, 300 queuing) admits
  200 at density 0.2 and 20 at density 5, and the factor falls from 1 to 0.1.
\<close>

theorem flow_reduction_tiers_witness:
  "(1 / 5 :: real) < density_comfortable default_params
   \<and> get_density_reduction default_params (1 / 5) = 1
   \<and> (1 / 5 :: real) \<le> 5
   \<and> get_density_reduction default_params 5 \<le> get_density_reduction default_params (1 / 5)
   \<and> density_dangerous default_params \<le> 5 \<and> (0 :: real) \<le> 60 \<and> (0 :: int) \<le> 200
   \<and> (0 :: int) < 300
   \<and> 1 \<le> gate_throughput 200 60 300 (get_density_reduction default_params (1 / 5))
   \<and> gate_throughput 200 60 300 (get_density_reduction default_params 5)
        < gate_throughput 200 60 300 (get_density_reduction default_params (1 / 5))"
  using flow_reduction_tiers[where d = "1 / 5" and d' = 5 and hi = 5 and lo = "1 / 5"
      and dt = 60 and cap = 200 and q = 300]
  by (simp add: default_params_def get_density_reduction_def gate_throughput_def py_int_def)

subsection \<open>Inter-zone diffusion\<close>

text \<open>
  C5 at a concrete input. A hall of 100 people (density 0.2) connected to two empty
  wings, one 60 second step with no gate and nobody approaching: the cap of 10 percent
  is taken of the occupancy left at each transfer, so the hall sends 10 people to the
  first wing and 9 to the second, 19 in the step, where 10 percent of the occupancy at
  the start of the step is 10.
\<close>

theorem zone_flow_drains_more_than_tenth:
  "map_sum id (occupancies \<circ> snd) (simulate_timestep sample_engine hall_venue hall_state 60 0)
     = Inr [(''A'', 81), (''B'', 10), (''C'', 9)]"
  by (simp add: engine_defs hall_venue_def hall_state_def sample_engine_def occupancies_def)


text \<open>
  The two other parts of C5 hold. After the diffusion phase every zone's occupancy lies
  between the smaller of 0 and its occupancy before the phase, and the larger of its
  occupancy before and its capacity: no transfer makes an occupancy negative, and none
  lifts a zone above its capacity.
\<close>

lemma map_of_dict_set: "map_of (dict_set d k v) = (map_of d)(k \<mapsto> v)"
  by (induction d) (auto simp: fun_eq_iff)

lemma dict_get_Inr: "dict_get d k = Inr v \<longleftrightarrow> map_of d k = Some v"
  by (simp add: dict_get_def split: option.splits)

lemma py_int_pos_le: "0 < py_int x \<Longrightarrow> real_of_int (py_int x) \<le> x"
  by (simp add: py_int_def split: if_splits)

lemma flow_targets_within:
  assumes "flow_targets p dt src red n ts s = Inr s'"
    and "occupancy_within lo hi s"
    and "\<forall>k. lo k \<le> 0" "\<forall>t\<in>set ts. capacity t \<le> hi (zone_id t)"
  shows "occupancy_within lo hi s'"
  using assms(1,2,4)
proof (induction ts arbitrary: s)
  case Nil
  then show ?case by simp
next
  case (Cons t ts)
  from Cons.prems(1) obtain tst where tst: "map_of (zone_states s) (zone_id t) = Some tst"
    by (auto simp: dict_get_Inr[symmetric] split: sum.splits)
  have rest: "\<forall>t\<in>set ts. capacity t \<le> hi (zone_id t)" using Cons.prems(3) by simp
  show ?case
  proof (cases "capacity t - zs_current_occupancy tst \<le> 0")
    case True
    with Cons.prems(1) tst have "flow_targets p dt src red n ts s = Inr s'"
      by (simp add: dict_get_def)
    from Cons.IH[OF this Cons.prems(2) rest] show ?thesis .
  next
    case False
    with Cons.prems(1) tst obtain sst where sst: "map_of (zone_states s) src = Some sst"
      by (auto simp: dict_get_def Let_def split: option.splits)
    define flow where "flow = py_int (min (min (desired_speed p * 60 * red * dt / 60 / real n)
                                 (real_of_int (zs_current_occupancy sst) * (1 / 10)))
                            (real_of_int (capacity t - zs_current_occupancy tst)))"
    show ?thesis
    proof (cases "flow > 0")
      case f0: False
      with Cons.prems(1) tst sst False have "flow_targets p dt src red n ts s = Inr s'"
        by (simp add: dict_get_def Let_def flow_def)
      from Cons.IH[OF this Cons.prems(2) rest] show ?thesis .
    next
      case True
      define zs1 where "zs1 = dict_set (zone_states s) src
                          (sst\<lparr>zs_current_occupancy := zs_current_occupancy sst - flow\<rparr>)"
      from py_int_pos_le[OF True[unfolded flow_def]]
      have b1: "real_of_int flow \<le> real_of_int (zs_current_occupancy sst) * (1 / 10)"
        and b2: "real_of_int flow \<le> real_of_int (capacity t - zs_current_occupancy tst)"
        unfolding flow_def[symmetric] by linarith+
      from b1 True have srcpos: "flow \<le> zs_current_occupancy sst" by linarith
      from b2 have cap: "zs_current_occupancy tst + flow \<le> capacity t" by linarith
      obtain tst1 where tst1: "map_of zs1 (zone_id t) = Some tst1"
        and le: "zs_current_occupancy tst1 \<le> zs_current_occupancy tst"
        and ge: "zs_current_occupancy tst1 \<ge> zs_current_occupancy tst - flow"
        using tst sst True unfolding zs1_def map_of_dict_set by (cases "zone_id t = src") auto
      define s2 where "s2 = s\<lparr> zone_states := dict_set zs1 (zone_id t)
                  (tst1\<lparr>zs_current_occupancy := zs_current_occupancy tst1 + flow\<rparr>) \<rparr>"
      have step: "flow_targets p dt src red n (t # ts) s = flow_targets p dt src red n ts s2"
        using tst sst False True tst1 unfolding s2_def zs1_def flow_def
        by (simp add: dict_get_def Let_def)
      have inv2: "occupancy_within lo hi s2"
        unfolding occupancy_within_def
      proof (intro allI impI)
        fix k st assume m: "map_of (zone_states s2) k = Some st"
        have hs: "lo src \<le> zs_current_occupancy sst \<and> zs_current_occupancy sst \<le> hi src"
          using Cons.prems(2) sst by (simp add: occupancy_within_def)
        have ht: "lo (zone_id t) \<le> zs_current_occupancy tst"
          using Cons.prems(2) tst by (simp add: occupancy_within_def)
        have l0: "lo src \<le> 0" "lo (zone_id t) \<le> 0" using assms(3) by simp_all
        have ct: "capacity t \<le> hi (zone_id t)" using Cons.prems(3) by simp
        show "lo k \<le> zs_current_occupancy st \<and> zs_current_occupancy st \<le> hi k"
        proof (cases "k = zone_id t")
          case True
          with m have "st = tst1\<lparr>zs_current_occupancy := zs_current_occupancy tst1 + flow\<rparr>"
            by (simp add: s2_def map_of_dict_set)
          then show ?thesis using le ge cap ct ht True \<open>flow > 0\<close> by simp
        next
          case kt: False
          show ?thesis
          proof (cases "k = src")
            case True
            with m kt have "st = sst\<lparr>zs_current_occupancy := zs_current_occupancy sst - flow\<rparr>"
              by (simp add: s2_def zs1_def map_of_dict_set)
            then show ?thesis using hs srcpos l0 True \<open>flow > 0\<close> by simp
          next
            case False
            with m kt have "map_of (zone_states s) k = Some st"
              by (simp add: s2_def zs1_def map_of_dict_set)
            then show ?thesis using Cons.prems(2) by (simp add: occupancy_within_def)
          qed
        qed
      qed
      from Cons.prems(1) have "flow_targets p dt src red n ts s2 = Inr s'"
        unfolding step .
      from Cons.IH[OF this inv2 rest] show ?thesis .
    qed
  qed
qed

lemma connected_capacity:
  "\<forall>t\<in>set (List.map_filter (get_zone venue) ks). capacity t = zone_capacity venue (zone_id t)"
proof
  fix t assume "t \<in> set (List.map_filter (get_zone venue) ks)"
  then obtain k where "get_zone venue k = Some t"
    by (auto simp: List.map_filter_def)
  then have "get_zone venue (zone_id t) = Some t"
    by (auto simp: get_zone_def find_Some_iff)
  then show "capacity t = zone_capacity venue (zone_id t)"
    by (simp add: zone_capacity_def)
qed

lemma zones_loop_within:
  assumes "zones_loop p venue dt zs s = Inr s'"
    and "occupancy_within lo hi s"
    and "\<forall>k. lo k \<le> 0" "\<forall>k. zone_capacity venue k \<le> hi k"
  shows "occupancy_within lo hi s'"
  using assms(1,2)
proof (induction zs arbitrary: s)
  case Nil
  then show ?case by simp
next
  case (Cons z zs)
  have caps: "\<forall>t\<in>set (List.map_filter (get_zone venue) (z_connected_zones z)).
                capacity t \<le> hi (zone_id t)"
    using connected_capacity[of venue "z_connected_zones z"] assms(4) by auto
  from Cons.prems show ?case
    by (auto simp: Let_def split: sum.splits if_splits
             intro: Cons.IH dest: flow_targets_within[OF _ _ assms(3) caps])
qed


lemma process_zone_flow_bounds:
  assumes "process_zone_flow p venue s dt = Inr s'"
  shows "occupancy_within (\<lambda>k. min 0 (occupancy_of s k))
           (\<lambda>k. max (occupancy_of s k) (zone_capacity venue k)) s'"
proof -
  have "occupancy_within (\<lambda>k. min 0 (occupancy_of s k))
           (\<lambda>k. max (occupancy_of s k) (zone_capacity venue k)) s"
    by (simp add: occupancy_within_def occupancy_of_def)
  from zones_loop_within[OF assms[unfolded process_zone_flow_def] this] show ?thesis
    by simp
qed

section \<open>Properties of the evacuation simulator\<close>

lemmas evac_defs =
  simulate_step_def new_simulator_def detect_bottlenecks_def exit_bottlenecks_def
  max_density_def update_phase_def generate_recommendations_def BOTTLENECK_DENSITY_def
  CRUSHING_DENSITY_def update_estimate_def remaining_exits_capacity_def py_int_def
  exit_flow_def
  List.map_filter_def Let_def start_evacuation_def generate_initial_recommendations_def
  evacuated_counts_def

subsection \<open>Before the evacuation has started\<close>

text \<open>
  C10. On a simulator whose evacuation has not been started (\<^verbatim>\<open>self.state\<close> is
  \<^verbatim>\<open>None\<close>), \<open>get_evacuation_summary\<close> returns the empty dictionary, while
  \<open>simulate_step\<close> raises \<^verbatim>\<open>ValueError\<close>.
\<close>

theorem summary_before_start:
  assumes "state sim = None"
  shows "get_evacuation_summary sim = [] \<and> simulate_step sim dt_seconds = Inl ValueError"
  using assms by (simp add: get_evacuation_summary_def simulate_step_def)

text \<open>Witness for C10: the freshly constructed stadium simulator.\<close>

theorem summary_before_start_witness:
  "state (new_simulator stadium_exits stadium_zones) = None
   \<and> get_evacuation_summary (new_simulator stadium_exits stadium_zones) = []
   \<and> simulate_step (new_simulator stadium_exits stadium_zones) 60 = Inl ValueError"
proof -
  have fresh: "state (new_simulator stadium_exits stadium_zones) = None"
    by (simp add: new_simulator_def)
  show ?thesis
    using fresh summary_before_start[OF fresh, of 60] by simp
qed

subsection \<open>Starting an evacuation\<close>

text \<open>
  C7 at its failing input, and at every other freshly constructed simulator: the call
  of \<open>start_evacuation\<close> ends in \<^verbatim>\<open>AttributeError\<close>, because the initial
  recommendations are computed from \<^verbatim>\<open>self.state\<close> before it is assigned. No state
  and no estimate is produced, whatever the exits, zones, trigger time and phase.
\<close>

theorem start_evacuation_fresh_raises:
  "start_evacuation (new_simulator stadium_exits stadium_zones) 0 ALERT = Inl AttributeError
   \<and> start_evacuation (new_simulator es zs) trigger_time initial_phase = Inl AttributeError"
  by (simp add: start_evacuation_def generate_initial_recommendations_def new_simulator_def
        Let_def)

text \<open>
  On a simulator that already has a state the same call does return, with the estimate
  the source computes: total occupancy over total exit capacity, times 60, times 1.5 for
  \<open>ALERT\<close> and 2 otherwise, truncated to an integer; 9999 stands for the quotient when
  the exits have no capacity. The zones, their evacuated counts included, and the exits
  are left as they are, and \<open>total_evacuated\<close> restarts at 0.
\<close>

lemma start_evacuation_restart:
  assumes "state sim = Some st0"
  shows "\<exists>sim' st. start_evacuation sim t ph = Inr sim' \<and> state sim' = Some st
     \<and> ev_zones sim' = ev_zones sim \<and> exits sim' = exits sim
     \<and> phase st = ph \<and> total_evacuated st = 0
     \<and> total_to_evacuate st = sum_list (map (ez_current_occupancy \<circ> snd) (ev_zones sim))
     \<and> estimated_complete_time st =
         py_int ((if sum_list (map (max_flow_rate \<circ> snd) (exits sim)) > 0
                  then real_of_int (sum_list (map (ez_current_occupancy \<circ> snd) (ev_zones sim)))
                         / real_of_int (sum_list (map (max_flow_rate \<circ> snd) (exits sim))) * 60
                  else 9999) * (if ph = ALERT then 3 / 2 else 2))"
  using assms
  by (simp add: start_evacuation_def generate_initial_recommendations_def Let_def)

lemma start_evacuation_restart_stadium:
  "map_sum id (map_option estimated_complete_time \<circ> state)
     (start_evacuation (started_stadium PANIC) 0 ALERT) = Inr (Some 450)"
  by (simp add: evac_defs started_stadium_def stadium_exits_def stadium_zones_def)


subsection \<open>Steps of an evacuation\<close>

lemma dict_set_flows:
  "flows_nonneg ex \<Longrightarrow> 0 \<le> max_flow_rate v \<Longrightarrow> flows_nonneg (dict_set ex k v)"
  by (induction ex) (auto simp: flows_nonneg_def)

lemma map_of_flows:
  "flows_nonneg ex \<Longrightarrow> map_of ex k = Some x \<Longrightarrow> 0 \<le> max_flow_rate x"
  by (induction ex) (auto simp: flows_nonneg_def split: if_splits)

lemma py_int_min_bounds:
  assumes "0 \<le> r" "a \<le> occ"
  shows "0 \<le> min (py_int r) (occ - a) \<and> a + min (py_int r) (occ - a) \<le> occ"
  using assms py_int_nonneg[of r] by auto

lemma exit_flow_bounds:
  assumes "0 \<le> max_flow_rate x" "0 \<le> dtm" "a \<le> ez_current_occupancy z"
  shows "0 \<le> exit_flow x z dtm a \<and> a + exit_flow x z dtm a \<le> ez_current_occupancy z"
proof -
  define rate where "rate = real_of_int (max_flow_rate x)
      * max (3 / 10) (1 - real_of_int (ez_current_occupancy z) / ez_area_sqm z / BOTTLENECK_DENSITY * (1 / 2))
      * dtm"
  have "0 \<le> rate" unfolding rate_def using assms(1,2)
    by (intro mult_nonneg_nonneg) auto
  then have "0 \<le> min (py_int rate) (ez_current_occupancy z - a)
      \<and> a + min (py_int rate) (ez_current_occupancy z - a) \<le> ez_current_occupancy z"
    using py_int_min_bounds[of rate a] assms(3) by simp
  moreover have "exit_flow x z dtm a = min (py_int rate) (ez_current_occupancy z - a)"
    unfolding exit_flow_def rate_def Let_def ..
  ultimately show ?thesis by simp
qed

lemma exits_loop_bounds:
  assumes "exits_loop z dtm eids ex a = Inr (ex', a')"
    and "0 < dtm" "flows_nonneg ex" "0 \<le> a" "a \<le> ez_current_occupancy z"
  shows "a \<le> a' \<and> a' \<le> ez_current_occupancy z \<and> flows_nonneg ex'"
  using assms
proof (induction eids arbitrary: ex a)
  case Nil
  then show ?case by simp
next
  case (Cons eid eids)
  show ?case
  proof (cases "map_of ex eid")
    case None
    with Cons show ?thesis by simp
  next
    case (Some x)
    show ?thesis
    proof (cases "is_accessible x")
      case False
      with Some Cons show ?thesis by simp
    next
      case True
      define ev where "ev = exit_flow x z dtm a"
      define ex1 where "ex1 = dict_set ex eid (x\<lparr>current_flow_rate := py_int (real_of_int ev / dtm)\<rparr>)"
      have mf: "0 \<le> max_flow_rate x" using map_of_flows[OF Cons.prems(3) Some] .
      have evb: "0 \<le> ev \<and> a + ev \<le> ez_current_occupancy z"
        unfolding ev_def using exit_flow_bounds[OF mf _ Cons.prems(5)] Cons.prems(2) by simp
      have fl: "flows_nonneg ex1" unfolding ex1_def
        using dict_set_flows[OF Cons.prems(3)] mf by simp
      have step: "exits_loop z dtm (eid # eids) ex a
          = (if ez_area_sqm z = 0 then Inl ZeroDivisionError
             else exits_loop z dtm eids ex1 (a + ev))"
        unfolding ex1_def ev_def using Some True Cons.prems(2)
        by (simp add: Let_def)
      from Cons.prems(1) have rec: "exits_loop z dtm eids ex1 (a + ev) = Inr (ex', a')"
        unfolding step by (simp split: if_splits)
      from Cons.IH[OF rec Cons.prems(2) fl] evb Cons.prems(4)
      show ?thesis by auto
    qed
  qed
qed

lemma update_estimate_fields [simp]:
  "ez_current_occupancy (update_estimate ex z) = ez_current_occupancy z"
  "ez_area_sqm (update_estimate ex z) = ez_area_sqm z"
  "evacuated_count (update_estimate ex z) = evacuated_count z"
  by (simp_all add: update_estimate_def)

lemma evacuate_zones_props:
  assumes "evacuate_zones dtm ex zs = Inr (ex', zs', n)" "0 < dtm" "flows_nonneg ex"
  shows "0 \<le> n \<and> zones_shrunk zs zs' \<and> flows_nonneg ex'
         \<and> evacuated_counts zs' = evacuated_counts zs + n"
  using assms
proof (induction zs arbitrary: ex ex' zs' n)
  case Nil
  then show ?case by (simp add: zones_shrunk_def evacuated_counts_def)
next
  case (Cons kz rest)
  obtain zid z where kz: "kz = (zid, z)" by (cases kz)
  show ?case
  proof (cases "ez_current_occupancy z \<le> 0")
    case True
    with Cons.prems(1) kz obtain rest' where
      rec: "evacuate_zones dtm ex rest = Inr (ex', rest', n)" and zs': "zs' = (zid, z) # rest'"
      by (auto split: sum.splits)
    from Cons.IH[OF rec Cons.prems(2,3)] zs' kz show ?thesis
      by (simp add: zones_shrunk_def evacuated_counts_def)
  next
    case False
    with Cons.prems(1) kz obtain ex1 m rest' k where
      lp: "exits_loop z dtm (nearest_exits z) ex 0 = Inr (ex1, m)" and
      rec: "evacuate_zones dtm ex1 rest = Inr (ex', rest', k)" and
      n: "n = m + k" and
      zs': "zs' = (zid, update_estimate ex1 (z\<lparr> evacuation_started := True,
                    ez_current_occupancy := ez_current_occupancy z - m,
                    evacuated_count := evacuated_count z + m \<rparr>)) # rest'"
      by (auto simp: Let_def split: sum.splits)
    from exits_loop_bounds[OF lp Cons.prems(2,3)] False
    have m: "0 \<le> m" "m \<le> ez_current_occupancy z" "flows_nonneg ex1" by auto
    from Cons.IH[OF rec Cons.prems(2) m(3)] m n zs' kz show ?thesis
      by (simp add: zones_shrunk_def evacuated_counts_def)
  qed
qed

lemma simulate_step_props:
  assumes "simulate_step sim dt = Inr sim'" "state sim = Some st" "0 < dt" "flows_nonneg (exits sim)"
  shows "\<exists>st'. state sim' = Some st' \<and> total_evacuated st \<le> total_evacuated st'
     \<and> zones_shrunk (ev_zones sim) (ev_zones sim') \<and> flows_nonneg (exits sim')
     \<and> total_evacuated st' - evacuated_counts (ev_zones sim')
         = total_evacuated st - evacuated_counts (ev_zones sim)"
proof -
  from assms(1,2) obtain ex' zs' n where
    ev: "evacuate_zones (real_of_int dt / 60) (exits sim) (ev_zones sim) = Inr (ex', zs', n)"
    by (auto simp: simulate_step_def split: sum.splits)
  have "0 < real_of_int dt / 60" using assms(3) by simp
  from evacuate_zones_props[OF ev this assms(4)]
  have p: "0 \<le> n" "zones_shrunk (ev_zones sim) zs'" "flows_nonneg ex'"
     "evacuated_counts zs' = evacuated_counts (ev_zones sim) + n" by auto
  from assms(1,2) ev p show ?thesis
    by (auto simp: simulate_step_def Let_def split: sum.splits)
qed

lemma zones_shrunk_refl: "zones_shrunk zs zs"
  by (auto simp: zones_shrunk_def list_all2_same)

lemma zones_shrunk_trans: "zones_shrunk a b \<Longrightarrow> zones_shrunk b c \<Longrightarrow> zones_shrunk a c"
  unfolding zones_shrunk_def
  by (erule list_all2_trans[rotated], assumption) auto

lemma fold_max_ge: "t \<le> fold max ds (d::real) \<longleftrightarrow> t \<le> d \<or> (\<exists>x\<in>set ds. t \<le> x)"
  by (induction ds arbitrary: d) (auto simp: le_max_iff_disj)

lemma occupied_densities_set:
  assumes "areas_positive zs"
  shows "\<exists>ds. occupied_densities zs = Inr ds
     \<and> set ds = {ez_density z | k z. (k, z) \<in> set zs \<and> 0 < ez_current_occupancy z}"
  using assms
proof (induction zs)
  case Nil
  then show ?case by simp
next
  case (Cons kz zs)
  obtain k z where kz: "kz = (k, z)" by (cases kz)
  from Cons kz obtain ds where ds: "occupied_densities zs = Inr ds"
    "set ds = {ez_density z | k z. (k, z) \<in> set zs \<and> 0 < ez_current_occupancy z}"
    and a: "0 < ez_area_sqm z"
    by (auto simp: areas_positive_def)
  show ?case
  proof (cases "0 < ez_current_occupancy z")
    case True
    then show ?thesis using ds a kz by (auto simp: ez_density_def)
  next
    case False
    then show ?thesis using ds a kz by auto
  qed
qed

lemma max_density_ge:
  assumes "areas_positive zs" "0 < t"
  shows "\<exists>md. max_density zs = Inr md
     \<and> (t \<le> md \<longleftrightarrow> (\<exists>(k, z)\<in>set zs. t \<le> ez_density z))"
proof -
  from occupied_densities_set[OF assms(1)] obtain ds where ds: "occupied_densities zs = Inr ds"
    "set ds = {ez_density z | k z. (k, z) \<in> set zs \<and> 0 < ez_current_occupancy z}" by auto
  have nonocc: "ez_density z \<le> 0" if "(k, z) \<in> set zs" "\<not> 0 < ez_current_occupancy z" for k z
  proof -
    from that assms(1) have "0 < ez_area_sqm z" by (auto simp: areas_positive_def list_all_iff)
    with that(2) show ?thesis by (simp add: ez_density_def divide_le_0_iff)
  qed
  have char: "(\<exists>x\<in>set ds. t \<le> x) \<longleftrightarrow> (\<exists>(k, z)\<in>set zs. t \<le> ez_density z)"
  proof
    assume "\<exists>x\<in>set ds. t \<le> x"
    then show "\<exists>(k, z)\<in>set zs. t \<le> ez_density z" unfolding ds(2) by auto
  next
    assume "\<exists>(k, z)\<in>set zs. t \<le> ez_density z"
    then obtain k z where kz: "(k, z) \<in> set zs" "t \<le> ez_density z" by auto
    with nonocc[OF kz(1)] assms(2) have "0 < ez_current_occupancy z" by force
    with kz show "\<exists>x\<in>set ds. t \<le> x" unfolding ds(2) by auto
  qed
  show ?thesis
  proof (cases ds)
    case Nil
    with ds char assms(2) show ?thesis by (auto simp: max_density_def)
  next
    case (Cons d ds')
    have "t \<le> fold max ds' d \<longleftrightarrow> (\<exists>x\<in>set ds. t \<le> x)"
      unfolding fold_max_ge Cons by auto
    with ds(1) Cons char show ?thesis by (simp add: max_density_def)
  qed
qed

lemma zones_shrunk_areas:
  "zones_shrunk zs zs' \<Longrightarrow> areas_positive zs \<Longrightarrow> areas_positive zs'"
  unfolding zones_shrunk_def areas_positive_def
  by (induction rule: list_all2_induct) auto

lemma evacuate_zones_areas:
  assumes "evacuate_zones dtm ex zs = Inr (ex', zs', n)"
  shows "list_all2 (\<lambda>(k, z) (k', z'). k' = k \<and> ez_area_sqm z' = ez_area_sqm z) zs zs'"
  using assms
proof (induction zs arbitrary: ex ex' zs' n)
  case Nil
  then show ?case by simp
next
  case (Cons kz rest)
  obtain zid z where kz: "kz = (zid, z)" by (cases kz)
  from Cons.prems kz show ?case
    by (auto simp: Let_def split: if_splits sum.splits dest!: Cons.IH)
qed

lemma areas_preserved:
  "list_all2 (\<lambda>(k, z) (k', z'). k' = k \<and> ez_area_sqm z' = ez_area_sqm z) zs zs'
     \<Longrightarrow> areas_positive zs \<Longrightarrow> areas_positive zs'"
  unfolding areas_positive_def
  by (induction rule: list_all2_induct) auto

lemma exits_loop_returns:
  assumes "ez_area_sqm z \<noteq> 0" "dtm \<noteq> 0"
  shows "\<exists>r. exits_loop z dtm eids ex a = Inr r"
  using assms
  by (induction eids arbitrary: ex a) (auto simp: Let_def split: option.splits)

lemma evacuate_zones_returns:
  assumes "areas_positive zs" "dtm \<noteq> 0"
  shows "\<exists>r. evacuate_zones dtm ex zs = Inr r"
  using assms
proof (induction zs arbitrary: ex)
  case Nil
  then show ?case by simp
next
  case (Cons kz rest)
  obtain zid z where kz: "kz = (zid, z)" by (cases kz)
  from Cons.prems kz have a: "ez_area_sqm z \<noteq> 0" and r: "areas_positive rest"
    by (auto simp: areas_positive_def)
  show ?case
  proof (cases "ez_current_occupancy z \<le> 0")
    case True
    from Cons.IH[OF r Cons.prems(2), of ex] True kz show ?thesis by auto
  next
    case False
    from exits_loop_returns[OF a Cons.prems(2), of "nearest_exits z" ex 0]
    obtain ex1 m where lp: "exits_loop z dtm (nearest_exits z) ex 0 = Inr (ex1, m)" by auto
    from Cons.IH[OF r Cons.prems(2), of ex1] False kz lp show ?thesis
      by (auto simp: Let_def)
  qed
qed

lemma zone_bottlenecks_returns:
  assumes "areas_positive zs"
  shows "\<exists>r. zone_bottlenecks zs = Inr r"
  using assms
proof (induction zs)
  case Nil
  then show ?case by simp
next
  case (Cons kz rest)
  obtain zid z where kz: "kz = (zid, z)" by (cases kz)
  from Cons kz show ?case by (auto simp: areas_positive_def Let_def)
qed

lemma simulate_step_returns:
  assumes "state sim = Some st" "dt \<noteq> 0" "areas_positive (ev_zones sim)"
  shows "\<exists>sim'. simulate_step sim dt = Inr sim'"
proof -
  have "real_of_int dt / 60 \<noteq> 0" using assms(2) by simp
  from evacuate_zones_returns[OF assms(3) this, of "exits sim"]
  obtain ex' zs' n where
    ev: "evacuate_zones (real_of_int dt / 60) (exits sim) (ev_zones sim) = Inr (ex', zs', n)"
    by (metis prod_cases3)
  have ap: "areas_positive zs'"
    using areas_preserved[OF evacuate_zones_areas[OF ev] assms(3)] .
  from zone_bottlenecks_returns[OF ap] obtain bs where bs: "zone_bottlenecks zs' = Inr bs" by auto
  from max_density_ge[OF ap, of 1] obtain md where md: "max_density zs' = Inr md" by auto
  show ?thesis
    using assms(1) ev bs md by (simp add: simulate_step_def detect_bottlenecks_def Let_def)
qed


text \<open>
  A step returns whenever the evacuation has been started, the time step is not zero and
  every zone has a positive area (lemma \<open>simulate_step_returns\<close>); the theorems below
  are about the simulator it returns.
\<close>

text \<open>
  C2, as stated, fails in its last part: \<open>start_evacuation\<close> sets \<open>total_evacuated\<close> to 0
  but leaves the zones' \<open>evacuated_count\<close> as they are. Starting again after one step
  of the stadium evacuation (1500 people out), the next step evacuates 1575 people:
  \<open>total_evacuated\<close> is 1575 while the zones' counts sum to 3075.
\<close>

theorem total_evacuated_restart_counterexample:
  "(case simulate_step (started_stadium ALERT) 60 of
      Inl e \<Rightarrow> False
    | Inr s1 \<Rightarrow>
        (case start_evacuation s1 60 ALERT of
           Inl e \<Rightarrow> False
         | Inr s2 \<Rightarrow>
             (case simulate_step s2 60 of
                Inl e \<Rightarrow> False
              | Inr s3 \<Rightarrow> map_option total_evacuated (state s3) = Some 1575
                           \<and> evacuated_counts (ev_zones s3) = 3075)))"
  by (simp add: evac_defs started_stadium_def stadium_exits_def stadium_zones_def)

text \<open>
  C2, amended. Across any sequence of \<open>simulate_step\<close> calls with positive time steps,
  on a started simulator whose exits have non-negative rated flow: \<open>total_evacuated\<close>
  does not decrease, no zone's occupancy increases, and the difference between
  \<open>total_evacuated\<close> and the sum of the zones' \<open>evacuated_count\<close> stays what it was.
  The two are therefore equal after every step exactly when they were equal at the
  start, that is when the zones' counts summed to 0 as \<open>start_evacuation\<close> was called.
\<close>

theorem simulate_steps_monotone:
  assumes "simulate_steps sim dts = Inr sim'" "state sim = Some st"
    and "\<forall>dt\<in>set dts. 0 < dt" "flows_nonneg (exits sim)"
  shows "\<exists>st'. state sim' = Some st' \<and> total_evacuated st \<le> total_evacuated st'
     \<and> zones_shrunk (ev_zones sim) (ev_zones sim')
     \<and> total_evacuated st' - evacuated_counts (ev_zones sim')
         = total_evacuated st - evacuated_counts (ev_zones sim)"
  using assms
proof (induction dts arbitrary: sim st)
  case Nil
  then show ?case by (simp add: zones_shrunk_refl)
next
  case (Cons dt dts)
  from Cons.prems(1) obtain sim1 where
    s1: "simulate_step sim dt = Inr sim1" and rest: "simulate_steps sim1 dts = Inr sim'"
    by (auto split: sum.splits)
  from simulate_step_props[OF s1 Cons.prems(2)] Cons.prems(3,4) obtain st1 where
    st1: "state sim1 = Some st1" "total_evacuated st \<le> total_evacuated st1"
      "zones_shrunk (ev_zones sim) (ev_zones sim1)" "flows_nonneg (exits sim1)"
      "total_evacuated st1 - evacuated_counts (ev_zones sim1)
         = total_evacuated st - evacuated_counts (ev_zones sim)" by auto
  from Cons.IH[OF rest st1(1) _ st1(4)] Cons.prems(3) obtain st' where
    "state sim' = Some st'" "total_evacuated st1 \<le> total_evacuated st'"
      "zones_shrunk (ev_zones sim1) (ev_zones sim')"
      "total_evacuated st' - evacuated_counts (ev_zones sim')
         = total_evacuated st1 - evacuated_counts (ev_zones sim1)" by auto
  with st1 show ?case
    by (auto intro: zones_shrunk_trans)
qed


text \<open>
  Witness for C2: two steps of 60 seconds of the stadium evacuation, whose zone starts
  with an evacuated count of 0; at the end \<open>total_evacuated\<close> equals the sum of the
  zones' counts.
\<close>

theorem simulate_steps_monotone_witness:
  "(0 :: int) < 60 \<and> flows_nonneg (exits (started_stadium ALERT))
   \<and> (\<exists>st sim' st'. state (started_stadium ALERT) = Some st
         \<and> simulate_steps (started_stadium ALERT) [60, 60] = Inr sim'
         \<and> state sim' = Some st' \<and> total_evacuated st \<le> total_evacuated st'
         \<and> zones_shrunk (ev_zones (started_stadium ALERT)) (ev_zones sim')
         \<and> total_evacuated st' = evacuated_counts (ev_zones sim'))"
proof -
  have dts: "\<forall>dt\<in>set [60, 60 :: int]. 0 < dt"
    by simp
  have fl: "flows_nonneg (exits (started_stadium ALERT))"
    by (simp add: flows_nonneg_def started_stadium_def new_simulator_def stadium_exits_def)
  obtain st where st: "state (started_stadium ALERT) = Some st" and z: "total_evacuated st = 0"
    by (simp add: started_stadium_def)
  have c0: "evacuated_counts (ev_zones (started_stadium ALERT)) = 0"
    by (simp add: evacuated_counts_def started_stadium_def new_simulator_def stadium_zones_def)
  have "\<exists>sim'. simulate_steps (started_stadium ALERT) [60, 60] = Inr sim'"
    by (simp add: evac_defs started_stadium_def stadium_exits_def stadium_zones_def)
  then obtain sim' where run: "simulate_steps (started_stadium ALERT) [60, 60] = Inr sim'" ..
  from simulate_steps_monotone[OF run st dts fl] z c0 st run fl show ?thesis
    by auto
qed

subsection \<open>Phase transitions\<close>

text \<open>
  C3. After a step of a started simulator whose zones have positive area, the phase is
  \<open>CRITICAL\<close> if some zone's density has reached the crushing threshold; else \<open>PANIC\<close>
  if some zone's density has reached the bottleneck threshold or the phase before the
  step was \<open>CRITICAL\<close>; else \<open>ALERT\<close> if the phase before was \<open>PANIC\<close> and every
  density is below half the bottleneck threshold; else unchanged. A phase other than
  \<open>NORMAL\<close> never becomes \<open>NORMAL\<close>.
\<close>

theorem simulate_step_phase:
  assumes "simulate_step sim dt = Inr sim'" "state sim = Some st"
    and "areas_positive (ev_zones sim)"
  shows "\<exists>st'. state sim' = Some st'
     \<and> phase st' =
         (if \<exists>(k, z)\<in>set (ev_zones sim'). CRUSHING_DENSITY \<le> ez_density z then CRITICAL
          else if (\<exists>(k, z)\<in>set (ev_zones sim'). BOTTLENECK_DENSITY \<le> ez_density z)
                  \<or> phase st = CRITICAL then PANIC
          else if phase st = PANIC
                  \<and> (\<forall>(k, z)\<in>set (ev_zones sim'). ez_density z < BOTTLENECK_DENSITY / 2) then ALERT
          else phase st)
     \<and> (phase st \<noteq> NORMAL \<longrightarrow> phase st' \<noteq> NORMAL)"
proof -
  from assms(1,2) obtain ex' zs' n bns md where
    ev: "evacuate_zones (real_of_int dt / 60) (exits sim) (ev_zones sim) = Inr (ex', zs', n)" and
    md: "max_density zs' = Inr md" and
    zs': "ev_zones sim' = zs'"
    by (auto simp: simulate_step_def Let_def split: sum.splits)
  from assms(1,2) ev md obtain st' where
    st': "state sim' = Some st'" "phase st' = update_phase (phase st) md"
    by (auto simp: simulate_step_def Let_def split: sum.splits)
  have ap: "areas_positive zs'"
    using areas_preserved[OF evacuate_zones_areas[OF ev] assms(3)] .
  have c: "CRUSHING_DENSITY \<le> md \<longleftrightarrow> (\<exists>(k, z)\<in>set zs'. CRUSHING_DENSITY \<le> ez_density z)"
    using max_density_ge[OF ap, of CRUSHING_DENSITY] md by (simp add: CRUSHING_DENSITY_def)
  have b: "BOTTLENECK_DENSITY \<le> md \<longleftrightarrow> (\<exists>(k, z)\<in>set zs'. BOTTLENECK_DENSITY \<le> ez_density z)"
    using max_density_ge[OF ap, of BOTTLENECK_DENSITY] md by (simp add: BOTTLENECK_DENSITY_def)
  have "BOTTLENECK_DENSITY / 2 \<le> md \<longleftrightarrow> (\<exists>(k, z)\<in>set zs'. BOTTLENECK_DENSITY / 2 \<le> ez_density z)"
    using max_density_ge[OF ap, of "BOTTLENECK_DENSITY / 2"] md by (simp add: BOTTLENECK_DENSITY_def)
  then have h: "md < BOTTLENECK_DENSITY * (1 / 2)
       \<longleftrightarrow> (\<forall>(k, z)\<in>set zs'. ez_density z < BOTTLENECK_DENSITY / 2)"
    by (auto simp: not_le[symmetric])
  have lt: "BOTTLENECK_DENSITY \<le> CRUSHING_DENSITY"
    by (simp add: BOTTLENECK_DENSITY_def CRUSHING_DENSITY_def)
  have rule: "update_phase (phase st) md =
         (if \<exists>(k, z)\<in>set zs'. CRUSHING_DENSITY \<le> ez_density z then CRITICAL
          else if (\<exists>(k, z)\<in>set zs'. BOTTLENECK_DENSITY \<le> ez_density z)
                  \<or> phase st = CRITICAL then PANIC
          else if phase st = PANIC
                  \<and> (\<forall>(k, z)\<in>set zs'. ez_density z < BOTTLENECK_DENSITY / 2) then ALERT
          else phase st)"
  proof -
    have nb: "md < BOTTLENECK_DENSITY \<longleftrightarrow> \<not> (\<exists>(k, z)\<in>set zs'. BOTTLENECK_DENSITY \<le> ez_density z)"
      using b by auto
    show ?thesis
      unfolding update_phase_def c b h nb by auto
  qed
  have "phase st \<noteq> NORMAL \<longrightarrow> update_phase (phase st) md \<noteq> NORMAL"
    by (auto simp: update_phase_def)
  with rule st' zs' show ?thesis by simp
qed


text \<open>
  Witness for C3: one step of the stadium evacuation begun in \<open>PANIC\<close>; the density
  falls to 1.7, below half the bottleneck threshold, and the phase becomes \<open>ALERT\<close>.
\<close>

theorem simulate_step_phase_witness:
  "areas_positive (ev_zones (started_stadium PANIC))
   \<and> (\<exists>st sim' st'. state (started_stadium PANIC) = Some st \<and> phase st = PANIC
         \<and> simulate_step (started_stadium PANIC) 60 = Inr sim'
         \<and> state sim' = Some st' \<and> phase st' = ALERT)"
proof -
  have ap: "areas_positive (ev_zones (started_stadium PANIC))"
    by (simp add: areas_positive_def started_stadium_def new_simulator_def stadium_zones_def)
  obtain st where st: "state (started_stadium PANIC) = Some st" and ph: "phase st = PANIC"
    by (simp add: started_stadium_def)
  have "\<exists>sim'. simulate_step (started_stadium PANIC) 60 = Inr sim'
          \<and> map_option phase (state sim') = Some ALERT"
    by (simp add: evac_defs started_stadium_def stadium_exits_def stadium_zones_def)
  then obtain sim' where run: "simulate_step (started_stadium PANIC) 60 = Inr sim'"
    and al: "map_option phase (state sim') = Some ALERT" by auto
  from simulate_step_phase[OF run st ap] al ph st run ap show ?thesis
    by auto
qed



text \<open>
  The last part of C3 over a whole run, and without any condition on the areas: once
  the phase is not \<open>NORMAL\<close>, no sequence of steps brings it back.
\<close>

lemma simulate_step_not_normal:
  assumes "simulate_step sim dt = Inr sim'" "state sim = Some st" "phase st \<noteq> NORMAL"
  shows "\<exists>st'. state sim' = Some st' \<and> phase st' \<noteq> NORMAL"
  using assms
  by (auto simp: simulate_step_def Let_def update_phase_def split: sum.splits if_splits)

lemma simulate_steps_not_normal:
  assumes "simulate_steps sim dts = Inr sim'" "state sim = Some st" "phase st \<noteq> NORMAL"
  shows "\<exists>st'. state sim' = Some st' \<and> phase st' \<noteq> NORMAL"
  using assms
proof (induction dts arbitrary: sim st)
  case Nil
  then show ?case by simp
next
  case (Cons dt dts)
  from Cons.prems(1) obtain sim1 where
    s1: "simulate_step sim dt = Inr sim1" and rest: "simulate_steps sim1 dts = Inr sim'"
    by (auto split: sum.splits)
  from simulate_step_not_normal[OF s1 Cons.prems(2,3)] obtain st1 where
    "state sim1 = Some st1" "phase st1 \<noteq> NORMAL" by auto
  from Cons.IH[OF rest this] show ?case .
qed


section \<open>Properties of the facility simulator and of the arrival curve\<close>

subsection \<open>Zero capacity\<close>

text \<open>
  C8 at its failing inputs. A step of a facility simulator holding an operational
  restroom with no service point raises \<^verbatim>\<open>ZeroDivisionError\<close>, for every draw, time,
  event phase, zone population and time step: the wait time divides by 60 times the
  capacity. And \<open>start_evacuation\<close> on a new simulator whose exits have no capacity
  raises \<^verbatim>\<open>AttributeError\<close> before any estimate is stored.
\<close>

theorem zero_capacity_raises:
  "facility_simulate_step
      \<lparr> facilities = [(''north-restroom-f'', closed_restroom)], f_history = [] \<rparr>
      uniform current_time event_phase zone_populations dt_seconds = Inl ZeroDivisionError
   \<and> start_evacuation
        (new_simulator (map (\<lambda>e. e\<lparr>max_flow_rate := 0\<rparr>) stadium_exits) stadium_zones)
        trigger_time initial_phase = Inl AttributeError"
  by (simp add: facility_simulate_step_def closed_restroom_def Let_def start_evacuation_def
        generate_initial_recommendations_def new_simulator_def)

text \<open>
  The sentinel of \<open>start_evacuation\<close> is reached only on a simulator that already has
  a state: without exits the stored estimate is 9999 times 1.5, truncated.
\<close>

lemma start_evacuation_restart_sentinel:
  "map_sum id (map_option estimated_complete_time \<circ> state)
     (start_evacuation ((started_stadium ALERT)\<lparr>exits := []\<rparr>) 0 ALERT) = Inr (Some 14998)"
  by (simp add: evac_defs started_stadium_def stadium_exits_def stadium_zones_def)

subsection \<open>The wave pattern\<close>

text \<open>
  C9, as stated, fails: for a window of 240 minutes the three peaks of the wave pattern
  have weights 0.3, 0.4, 0.3 and centres 72, 120, 168 (30, 50 and 70 percent of the
  window), not equal weights and not the centres 60, 120, 180.
\<close>

theorem wave_components_counterexample:
  "map fst (wave_components 240) = [3 / 10, 4 / 10, 3 / 10]
   \<and> map (fst \<circ> snd) (wave_components 240) = [72, 120, 168]
   \<and> map fst (wave_components 240) \<noteq> [1 / 3, 1 / 3, 1 / 3]
   \<and> map (fst \<circ> snd) (wave_components 240)
       \<noteq> [240 * (25 / 100), 240 * (50 / 100), 240 * (75 / 100)]"
  by (simp add: wave_components_def)

lemma wave_curve_mixture: "wave_curve pdf d m = mixture pdf (wave_components d) m"
  by (simp add: wave_curve_def mixture_def wave_components_def)

lemma zip_map_self: "zip xs (map h xs) = map (\<lambda>m. (m, h m)) xs"
  by (induction xs) auto

text \<open>
  C9, amended. For the wave pattern (any pattern name other than the three bell
  curves) \<open>generate_arrival_curve\<close> returns, minute by minute, the mixture of three
  truncated normal peaks of weights 0.3, 0.4 and 0.3, centred at 30, 50 and 70 percent
  of the window, each of scale 20 minutes and truncated at 30 minutes (1.5 scales) on
  either side, normalised by its sum over the minutes and multiplied by the number of
  attendees.
\<close>

theorem generate_arrival_curve_wave:
  assumes "pattern \<notin> {''normal'', ''early_rush'', ''late_surge''}"
    and "sum_list (map (mixture pdf (wave_components ((event_start - gates_open) / 60)))
                     (arange ((event_start - gates_open) / 60 + 1))) \<noteq> 0"
  shows "generate_arrival_curve pdf total_attendees gates_open event_start pattern
     = Inr (map (\<lambda>m. (m, mixture pdf (wave_components ((event_start - gates_open) / 60)) m
                        / sum_list (map (mixture pdf (wave_components ((event_start - gates_open) / 60)))
                                     (arange ((event_start - gates_open) / 60 + 1)))
                        * real_of_int total_attendees))
              (arange ((event_start - gates_open) / 60 + 1)))
   \<and> wave_components ((event_start - gates_open) / 60)
       = [(3 / 10, (event_start - gates_open) / 60 * (3 / 10), 20),
          (4 / 10, (event_start - gates_open) / 60 * (5 / 10), 20),
          (3 / 10, (event_start - gates_open) / 60 * (7 / 10), 20)]"
proof
  let ?d = "(event_start - gates_open) / 60"
  have eq: "wave_curve pdf ?d = mixture pdf (wave_components ?d)"
    by (rule ext) (rule wave_curve_mixture)
  show "generate_arrival_curve pdf total_attendees gates_open event_start pattern
     = Inr (map (\<lambda>m. (m, mixture pdf (wave_components ?d) m
                        / sum_list (map (mixture pdf (wave_components ?d)) (arange (?d + 1)))
                        * real_of_int total_attendees))
              (arange (?d + 1)))"
    using assms unfolding generate_arrival_curve_def Let_def eq
    by (simp add: zip_map_self o_def)
  show "wave_components ?d
       = [(3 / 10, ?d * (3 / 10), 20), (4 / 10, ?d * (5 / 10), 20), (3 / 10, ?d * (7 / 10), 20)]"
    by (simp add: wave_components_def)
qed

text \<open>
  Witness for C9: a window of two minutes and 300 attendees, with the uniform stand-in
  density; the three minutes of the curve receive 100 arrivals each.
\<close>

theorem generate_arrival_curve_wave_witness:
  "''wave'' \<notin> {''normal'', ''early_rush'', ''late_surge''}
   \<and> sum_list (map (mixture box_pdf (wave_components ((120 - 0) / 60)))
                 (arange ((120 - 0) / 60 + 1))) \<noteq> 0
   \<and> generate_arrival_curve box_pdf 300 0 120 ''wave'' = Inr [(0, 100), (1, 100), (2, 100)]"
proof -
  have p: "''wave'' \<notin> {''normal'', ''early_rush'', ''late_surge''}"
    by simp
  have ar: "arange ((120 - 0) / 60 + 1) = [0, 1, 2]"
    by (simp add: arange_def upt_rec)
  have nz: "sum_list (map (mixture box_pdf (wave_components ((120 - 0) / 60)))
                 (arange ((120 - 0) / 60 + 1))) \<noteq> 0"
    unfolding ar by (simp add: mixture_def wave_components_def box_pdf_def)
  show ?thesis
    using p nz generate_arrival_curve_wave[OF p nz, of 300]
    unfolding ar by (simp add: mixture_def wave_components_def box_pdf_def)
qed

end
